theory Spec2Isabelle
  imports Complex_Main "HOL-Library.Word" "HOL-Library.Signed_Division"
begin

section \<open>Common types\<close>

text \<open>
  Go's \<open>float64\<close> is modelled by \<open>real\<close>: the arithmetic of the model is exact, rounding
  and the non-finite values are not represented. Where Go divides by zero (and yields an
  infinity or a NaN) HOL's division yields \<open>0\<close>, so the model says nothing about a
  strategy whose \<open>volumeDivideBy\<close> is zero, an operation whose price is zero under a
  quote-units cap, or a surplus formula whose divisor \<open>r ^ n - 1\<close> is zero; the theorem on
  that formula has hypotheses under which the divisor is not zero.
\<close>

type_synonym float64 = real

type_synonym asset = string

text \<open>
  Every early \<open>return nil, e\<close> of the sources is a value of \<open>error\<close>: \<open>Error\<close> is an error
  handed back by a collaborator or created in place, \<open>Wrapped\<close> is \<open>fmt.Errorf\<close> around an
  inner error, \<open>Fatal\<close> is the abort of a \<open>Must...\<close> helper.
\<close>

datatype error = Error string | Wrapped string error | Fatal string

subsection \<open>model.Number\<close>

text \<open>
  Package \<open>model\<close> is not among the sources. The operations of \<open>model.Number\<close> that the
  strategy calls are taken as a parameter: a record of functions over an arbitrary carrier
  \<open>'n\<close>. \<open>MustNumberFromString\<close> yields \<open>None\<close> where the Go helper aborts.
\<close>

record 'n numberAPI =
  AsFloat :: "'n \<Rightarrow> float64"
  Scale :: "'n \<Rightarrow> float64 \<Rightarrow> 'n"
  Multiply :: "'n \<Rightarrow> 'n \<Rightarrow> 'n"
  Add :: "'n \<Rightarrow> 'n \<Rightarrow> 'n"
  Subtract :: "'n \<Rightarrow> 'n \<Rightarrow> 'n"
  EqualsPrecisionNormalized :: "'n \<Rightarrow> 'n \<Rightarrow> float64 \<Rightarrow> bool"
  InvertNumber :: "'n \<Rightarrow> 'n"
  NumberByCappingPrecision :: "'n \<Rightarrow> int \<Rightarrow> 'n"
  MustNumberFromString :: "string \<Rightarrow> int \<Rightarrow> 'n option"
  NumberFromFloat :: "float64 \<Rightarrow> int \<Rightarrow> 'n"
  Zero :: "'n"

record 'n orderConstraints =
  PricePrecision :: int
  VolumePrecision :: int
  MinBaseVolume :: "'n"

datatype orderAction = OrderActionBuy | OrderActionSell

fun Reverse :: "orderAction \<Rightarrow> orderAction" where
  "Reverse OrderActionBuy = OrderActionSell"
| "Reverse OrderActionSell = OrderActionBuy"

datatype orderType = OrderTypeLimit

record tradingPair =
  pair_Base :: asset
  pair_Quote :: asset

record 'n order =
  order_Pair :: tradingPair
  order_Action :: orderAction
  order_Type :: orderType
  order_Price :: "'n"
  order_Volume :: "'n"
  order_Timestamp :: "int option"

text \<open>\<open>horizon.Offer\<close>: the live offer, with its price and amount as the venue's strings.\<close>

record offer =
  offer_ID :: int
  offer_Selling :: asset
  offer_Buying :: asset
  offer_Amount :: string
  offer_Price :: string

section \<open>The capital liability tracker as the reconciler sees it\<close>

text \<open>
  \<open>SDEX\<close> is not among the sources. The reconciler changes it through \<open>AddLiabilities\<close>
  only, so its state is modelled by the sequence of \<open>AddLiabilities\<close> calls made so far,
  each with its five arguments.
\<close>

record liabilityCall =
  liab_selling :: asset
  liab_buying :: asset
  liab_amountSelling :: float64
  liab_amountBuying :: float64
  liab_incrementalNative :: float64

type_synonym SDEX = "liabilityCall list"

definition AddLiabilities ::
  "SDEX \<Rightarrow> asset \<Rightarrow> asset \<Rightarrow> float64 \<Rightarrow> float64 \<Rightarrow> float64 \<Rightarrow> SDEX" where
  "AddLiabilities sdex selling buying amountSelling amountBuying incrementalNative =
     sdex @ [\<lparr>liab_selling = selling, liab_buying = buying,
              liab_amountSelling = amountSelling, liab_amountBuying = amountBuying,
              liab_incrementalNative = incrementalNative\<rparr>]"

text \<open>
  An operation of the returned list is tagged by where the code makes it:
  \<open>s.sdex.DeleteOffer\<close>, the \<open>modifyOffer\<close> callback or the \<open>createOffer\<close> callback. \<open>'b\<close> is
  the builder (\<open>build.ManageOfferBuilder\<close>) the callbacks return.
\<close>

datatype 'b transactionMutator = DeleteOffer offer | ModifyOffer 'b | CreateOffer 'b

fun isDelete :: "'b transactionMutator \<Rightarrow> bool" where
  "isDelete (DeleteOffer _) = True"
| "isDelete _ = False"

text \<open>
  The callbacks are methods of \<open>SDEX\<close> (\<open>ModifyBuyOffer\<close>, \<open>CreateSellOffer\<close>, ...): they
  may read its state, return a builder, \<open>nil\<close> (\<open>None\<close>) or an error.
\<close>

type_synonym 'b modifyOfferFn =
  "SDEX \<Rightarrow> offer \<Rightarrow> float64 \<Rightarrow> float64 \<Rightarrow> float64 \<Rightarrow> error + 'b option"

type_synonym 'b createOfferFn =
  "SDEX \<Rightarrow> asset \<Rightarrow> asset \<Rightarrow> float64 \<Rightarrow> float64 \<Rightarrow> float64 \<Rightarrow> error + 'b option"

section \<open>The mirror strategy\<close>

record 'n assetSurplus =
  total :: "'n"
  committed :: "'n"

definition makeAssetSurplus :: "'n numberAPI \<Rightarrow> 'n assetSurplus" where
  "makeAssetSurplus N = \<lparr>total = Zero N, committed = Zero N\<rparr>"

record 'n mirrorStrategy =
  baseAsset :: asset
  quoteAsset :: asset
  primaryConstraints :: "'n orderConstraints"
  backingPair :: tradingPair
  backingConstraints :: "'n orderConstraints"
  orderbookDepth :: int
  perLevelSpread :: float64
  volumeDivideBy :: float64
  offsetTrades :: bool
  baseSurplus :: "orderAction \<Rightarrow> 'n assetSurplus"

subsection \<open>doModifyOffer\<close>

text \<open>
  The result is the pair (modifyOp, deleteOp) or the error, together with the tracker's
  state after the call. \<open>incr\<close> is \<open>s.sdex.ComputeIncrementalNativeAmountRaw\<close>.
\<close>

definition doModifyOffer ::
  "'n numberAPI \<Rightarrow> (bool \<Rightarrow> float64) \<Rightarrow> 'n mirrorStrategy \<Rightarrow> offer \<Rightarrow> 'n order \<Rightarrow> float64 \<Rightarrow>
   'b modifyOfferFn \<Rightarrow> bool \<Rightarrow> SDEX \<Rightarrow>
   (error + ('b transactionMutator option \<times> 'b transactionMutator option)) \<times> SDEX" where
  "doModifyOffer N incr s oldOffer newOrder priceMultiplier modifyOffer
       hackPriceInvertForBuyOrderChangeCheck sdex =
     (let price = Scale N (order_Price newOrder) priceMultiplier;
          vol = Scale N (order_Volume newOrder) (1.0 / volumeDivideBy s)
      in case MustNumberFromString N (offer_Price oldOffer) (PricePrecision (primaryConstraints s)) of
           None \<Rightarrow> (Inl (Fatal ''MustNumberFromString''), sdex)
         | Some oldPrice0 \<Rightarrow>
      (case MustNumberFromString N (offer_Amount oldOffer) (VolumePrecision (primaryConstraints s)) of
           None \<Rightarrow> (Inl (Fatal ''MustNumberFromString''), sdex)
         | Some oldVol0 \<Rightarrow>
       let oldVol = (if hackPriceInvertForBuyOrderChangeCheck
                     then Multiply N oldVol0 oldPrice0 else oldVol0);
           oldPrice = (if hackPriceInvertForBuyOrderChangeCheck
                       then InvertNumber N oldPrice0 else oldPrice0);
           epsilon = 0.0001;
           incrementalNativeAmountRaw = incr False;
           sameOrderParams = (EqualsPrecisionNormalized N oldPrice price epsilon
                              \<and> EqualsPrecisionNormalized N oldVol vol epsilon)
       in if sameOrderParams then
            (Inr (None, None),
             if hackPriceInvertForBuyOrderChangeCheck
             then AddLiabilities sdex (offer_Selling oldOffer) (offer_Buying oldOffer)
                    (AsFloat N (Multiply N oldVol oldPrice)) (AsFloat N oldVol)
                    incrementalNativeAmountRaw
             else AddLiabilities sdex (offer_Selling oldOffer) (offer_Buying oldOffer)
                    (AsFloat N oldVol) (AsFloat N (Multiply N oldVol oldPrice))
                    incrementalNativeAmountRaw)
          else
            let offerPrice = NumberByCappingPrecision N price (PricePrecision (primaryConstraints s));
                offerAmount = NumberByCappingPrecision N vol (VolumePrecision (primaryConstraints s))
            in if AsFloat N offerAmount < AsFloat N (MinBaseVolume (backingConstraints s)) then
                 (Inr (None, Some (DeleteOffer oldOffer)), sdex)
               else
                 (case modifyOffer sdex oldOffer (AsFloat N offerPrice) (AsFloat N offerAmount)
                         incrementalNativeAmountRaw of
                    Inl e \<Rightarrow> (Inl e, sdex)
                  | Inr (Some mo) \<Rightarrow>
                      (Inr (Some (ModifyOffer mo), None),
                       if hackPriceInvertForBuyOrderChangeCheck
                       then AddLiabilities sdex (offer_Selling oldOffer) (offer_Buying oldOffer)
                              (AsFloat N (Multiply N offerAmount offerPrice)) (AsFloat N offerAmount)
                              incrementalNativeAmountRaw
                       else AddLiabilities sdex (offer_Selling oldOffer) (offer_Buying oldOffer)
                              (AsFloat N offerAmount) (AsFloat N (Multiply N offerAmount offerPrice))
                              incrementalNativeAmountRaw)
                  | Inr None \<Rightarrow> (Inr (None, Some (DeleteOffer oldOffer)), sdex))))"

subsection \<open>updateLevels\<close>

text \<open>
  The first loop of either branch: \<open>doModifyOffer\<close> on \<open>oldOffers[i]\<close> and \<open>newOrders[i]\<close>
  for every index both lists have, appending to \<open>ops\<close> and \<open>deleteOps\<close>. An error ends the
  loop; the liabilities added before it stay.
\<close>

fun modifyLevels ::
  "'n numberAPI \<Rightarrow> (bool \<Rightarrow> float64) \<Rightarrow> 'n mirrorStrategy \<Rightarrow> float64 \<Rightarrow> 'b modifyOfferFn \<Rightarrow> bool \<Rightarrow>
   offer list \<Rightarrow> 'n order list \<Rightarrow> 'b transactionMutator list \<Rightarrow> 'b transactionMutator list \<Rightarrow> SDEX \<Rightarrow>
   (error + ('b transactionMutator list \<times> 'b transactionMutator list)) \<times> SDEX" where
  "modifyLevels N incr s pm modifyOffer hack (oldOffer # oldOffers) (newOrder # newOrders)
       ops deleteOps sdex =
     (case doModifyOffer N incr s oldOffer newOrder pm modifyOffer hack sdex of
        (Inl e, sdex') \<Rightarrow> (Inl e, sdex')
      | (Inr (modifyOp, deleteOp), sdex') \<Rightarrow>
          modifyLevels N incr s pm modifyOffer hack oldOffers newOrders
            (case modifyOp of None \<Rightarrow> ops | Some m \<Rightarrow> ops @ [m])
            (case deleteOp of None \<Rightarrow> deleteOps | Some d \<Rightarrow> deleteOps @ [d])
            sdex')"
| "modifyLevels N incr s pm modifyOffer hack _ _ ops deleteOps sdex =
     (Inr (ops, deleteOps), sdex)"

text \<open>The loop that creates offers for the new orders beyond the old offers.\<close>

fun createLevels ::
  "'n numberAPI \<Rightarrow> (bool \<Rightarrow> float64) \<Rightarrow> 'n mirrorStrategy \<Rightarrow> float64 \<Rightarrow> 'b createOfferFn \<Rightarrow> bool \<Rightarrow>
   'n order list \<Rightarrow> 'b transactionMutator list \<Rightarrow> SDEX \<Rightarrow>
   (error + 'b transactionMutator list) \<times> SDEX" where
  "createLevels N incr s pm createOffer hack [] ops sdex = (Inr ops, sdex)"
| "createLevels N incr s pm createOffer hack (newOrder # newOrders) ops sdex =
     (let price = AsFloat N (Scale N (order_Price newOrder) pm);
          vol = AsFloat N (Scale N (order_Volume newOrder) (1.0 / volumeDivideBy s));
          incrementalNativeAmountRaw = incr True
      in if vol < AsFloat N (MinBaseVolume (backingConstraints s)) then
           createLevels N incr s pm createOffer hack newOrders ops sdex
         else
           (case createOffer sdex (baseAsset s) (quoteAsset s) price vol
                   incrementalNativeAmountRaw of
              Inl e \<Rightarrow> (Inl e, sdex)
            | Inr None \<Rightarrow> createLevels N incr s pm createOffer hack newOrders ops sdex
            | Inr (Some mo) \<Rightarrow>
                createLevels N incr s pm createOffer hack newOrders (ops @ [CreateOffer mo])
                  (if hack
                   then AddLiabilities sdex (quoteAsset s) (baseAsset s) (vol * price) vol
                          incrementalNativeAmountRaw
                   else AddLiabilities sdex (baseAsset s) (quoteAsset s) vol (vol * price)
                          incrementalNativeAmountRaw)))"

definition updateLevels ::
  "'n numberAPI \<Rightarrow> (bool \<Rightarrow> float64) \<Rightarrow> 'n mirrorStrategy \<Rightarrow> offer list \<Rightarrow> 'n order list \<Rightarrow>
   'b modifyOfferFn \<Rightarrow> 'b createOfferFn \<Rightarrow> float64 \<Rightarrow> bool \<Rightarrow> SDEX \<Rightarrow>
   (error + 'b transactionMutator list) \<times> SDEX" where
  "updateLevels N incr s oldOffers newOrders modifyOffer createOffer priceMultiplier hack sdex =
     (if length newOrders \<ge> length oldOffers then
        (case modifyLevels N incr s priceMultiplier modifyOffer hack oldOffers newOrders [] [] sdex of
           (Inl e, sdex1) \<Rightarrow> (Inl e, sdex1)
         | (Inr (ops, deleteOps), sdex1) \<Rightarrow>
             (case createLevels N incr s priceMultiplier createOffer hack
                     (drop (length oldOffers) newOrders) ops sdex1 of
                (Inl e, sdex2) \<Rightarrow> (Inl e, sdex2)
              | (Inr ops2, sdex2) \<Rightarrow> (Inr (deleteOps @ ops2), sdex2)))
      else
        (case modifyLevels N incr s priceMultiplier modifyOffer hack oldOffers newOrders [] [] sdex of
           (Inl e, sdex1) \<Rightarrow> (Inl e, sdex1)
         | (Inr (ops, deleteOps), sdex1) \<Rightarrow>
             (Inr ((deleteOps @ map DeleteOffer (drop (length newOrders) oldOffers)) @ ops),
              sdex1)))"

subsection \<open>UpdateWithOps\<close>

text \<open>
  The four offer builders of \<open>SDEX\<close> that \<open>UpdateWithOps\<close> hands to \<open>updateLevels\<close>.
\<close>

record 'b sdexBuilders =
  ModifyBuyOffer :: "'b modifyOfferFn"
  CreateBuyOffer :: "'b createOfferFn"
  ModifySellOffer :: "'b modifyOfferFn"
  CreateSellOffer :: "'b createOfferFn"

text \<open>
  \<open>orderBook\<close> is what \<open>s.tradeAPI.GetOrderBook\<close> returned: an error or the bids and the
  asks. \<open>PriceAsFloat\<close> is \<open>utils.PriceAsFloat\<close>, not among the sources.
\<close>

definition UpdateWithOps ::
  "'n numberAPI \<Rightarrow> (bool \<Rightarrow> float64) \<Rightarrow> 'b sdexBuilders \<Rightarrow> (string \<Rightarrow> float64) \<Rightarrow>
   'n mirrorStrategy \<Rightarrow> (error + 'n order list \<times> 'n order list) \<Rightarrow> offer list \<Rightarrow> offer list \<Rightarrow>
   SDEX \<Rightarrow> (error + 'b transactionMutator list) \<times> SDEX" where
  "UpdateWithOps N incr B PriceAsFloat s orderBook buyingAOffers sellingAOffers sdex =
     (case orderBook of
        Inl e \<Rightarrow> (Inl e, sdex)
      | Inr (obBids, obAsks) \<Rightarrow>
          let bids = (if length obBids > 50 then take 50 obBids else obBids);
              asks = (if length obAsks > 50 then take 50 obAsks else obAsks)
          in (case updateLevels N incr s buyingAOffers bids (ModifyBuyOffer B) (CreateBuyOffer B)
                      (1 - perLevelSpread s) True sdex of
                (Inl e, sdex1) \<Rightarrow> (Inl e, sdex1)
              | (Inr buyOps, sdex1) \<Rightarrow>
                  (case updateLevels N incr s sellingAOffers asks (ModifySellOffer B)
                          (CreateSellOffer B) (1 + perLevelSpread s) False sdex1 of
                     (Inl e, sdex2) \<Rightarrow> (Inl e, sdex2)
                   | (Inr sellOps, sdex2) \<Rightarrow>
                       (Inr (if length obBids > 0 \<and> length sellingAOffers > 0
                                \<and> AsFloat N (order_Price (obBids ! 0))
                                    \<ge> PriceAsFloat (offer_Price (sellingAOffers ! 0))
                             then sellOps @ buyOps
                             else buyOps @ sellOps),
                        sdex2))))"

subsection \<open>The fill-offset surplus tracker\<close>

record 'n trade =
  trade_OrderAction :: orderAction
  trade_Price :: "'n"
  trade_Volume :: "'n"
  trade_TransactionID :: string

text \<open>\<open>None\<close> is the result \<open>(nil, false)\<close>; \<open>Some v\<close> is \<open>(v, true)\<close>.\<close>

definition baseVolumeToOffset ::
  "'n numberAPI \<Rightarrow> 'n mirrorStrategy \<Rightarrow> 'n trade \<Rightarrow> orderAction \<Rightarrow> 'n option" where
  "baseVolumeToOffset N s trade newOrderAction =
     (let uncommittedBase = Subtract N (total (baseSurplus s newOrderAction))
                              (committed (baseSurplus s newOrderAction))
      in if AsFloat N uncommittedBase
              < AsFloat N (Scale N (MinBaseVolume (backingConstraints s)) 0.5) then None
         else
           let newVolume = (if AsFloat N uncommittedBase
                                 > AsFloat N (MinBaseVolume (backingConstraints s))
                            then uncommittedBase
                            else MinBaseVolume (backingConstraints s))
           in Some (NumberByCappingPrecision N newVolume (VolumePrecision (backingConstraints s))))"

text \<open>
  \<open>HandleFill\<close> runs under the strategy's mutex; one call is one step of the model. The
  result is the returned error (\<open>None\<close> for \<open>nil\<close>), the strategy after the call and the
  orders handed to \<open>s.tradeAPI.AddOrder\<close> (none or one). \<open>addOrder\<close> is that collaborator:
  an error, a \<open>nil\<close> transaction identifier or an identifier.
\<close>

definition HandleFill ::
  "'n numberAPI \<Rightarrow> ('n order \<Rightarrow> error + string option) \<Rightarrow> 'n mirrorStrategy \<Rightarrow> 'n trade \<Rightarrow>
   error option \<times> 'n mirrorStrategy \<times> 'n order list" where
  "HandleFill N addOrder s trade =
     (let newOrderAction = Reverse (trade_OrderAction trade);
          s1 = s\<lparr>baseSurplus := (baseSurplus s)(newOrderAction :=
                 (baseSurplus s newOrderAction)
                   \<lparr>total := Add N (total (baseSurplus s newOrderAction)) (trade_Volume trade)\<rparr>)\<rparr>
      in case baseVolumeToOffset N s1 trade newOrderAction of
           None \<Rightarrow> (None, s1, [])
         | Some newVolume \<Rightarrow>
             let s2 = s1\<lparr>baseSurplus := (baseSurplus s1)(newOrderAction :=
                        (baseSurplus s1 newOrderAction)
                          \<lparr>committed := Add N (committed (baseSurplus s1 newOrderAction)) newVolume\<rparr>)\<rparr>;
                 newOrder = \<lparr>order_Pair = backingPair s,
                             order_Action = newOrderAction,
                             order_Type = OrderTypeLimit,
                             order_Price = NumberByCappingPrecision N (trade_Price trade)
                                             (PricePrecision (backingConstraints s)),
                             order_Volume = newVolume,
                             order_Timestamp = None\<rparr>
             in (case addOrder newOrder of
                   Inl e \<Rightarrow> (Some (Wrapped ''error when offsetting trade'' e), s2, [newOrder])
                 | Inr None \<Rightarrow>
                     (Some (Error ''error when offsetting trade: transactionID was <nil>''),
                      s2, [newOrder])
                 | Inr (Some transactionID) \<Rightarrow>
                     (None,
                      s2\<lparr>baseSurplus := (baseSurplus s2)(newOrderAction :=
                           \<lparr>total = Subtract N (total (baseSurplus s2 newOrderAction)) newVolume,
                            committed = Subtract N (committed (baseSurplus s2 newOrderAction))
                                          newVolume\<rparr>)\<rparr>,
                      [newOrder])))"

section \<open>The volume filter\<close>

datatype volumeFilterMode = volumeFilterModeExact | volumeFilterModeIgnore

definition parseVolumeFilterMode :: "string \<Rightarrow> error + volumeFilterMode" where
  "parseVolumeFilterMode m =
     (if m = ''exact'' then Inr volumeFilterModeExact
      else if m = ''ignore'' then Inr volumeFilterModeIgnore
      else Inl (Error ''invalid input mode''))"

text \<open>A \<open>*float64\<close> that may be \<open>nil\<close> is a \<open>float64 option\<close>.\<close>

record volumeFilterConfig =
  SellBaseAssetCapInBaseUnits :: "float64 option"
  SellBaseAssetCapInQuoteUnits :: "float64 option"
  mode :: volumeFilterMode
  additionalMarketIDs :: "string list"

definition isEmpty :: "volumeFilterConfig \<Rightarrow> bool" where
  "isEmpty c =
     (if SellBaseAssetCapInBaseUnits c \<noteq> None then False
      else if SellBaseAssetCapInQuoteUnits c \<noteq> None then False
      else True)"

definition Validate :: "volumeFilterConfig \<Rightarrow> error option" where
  "Validate c = (if isEmpty c then Some (Error ''the volumeFilterConfig was empty'') else None)"

record volumeFilter =
  vf_name :: string
  vf_baseAsset :: asset
  vf_quoteAsset :: asset
  vf_config :: volumeFilterConfig

text \<open>
  \<open>dailyOTB\<close> and \<open>dailyTBB\<close> are built by \<open>Apply\<close>, their only maker, with both pointers
  set: the two sold totals, in base and in quote units.
\<close>

record dailyVolume =
  BaseVol :: float64
  QuoteVol :: float64

text \<open>\<open>txnbuild.ManageSellOffer\<close>, with the amount and the price as strings.\<close>

record manageSellOffer =
  op_Selling :: asset
  op_Buying :: asset
  op_Amount :: string
  op_Price :: string
  op_OfferID :: int

text \<open>
  The library functions the filter calls are parameters: \<open>IsSelling\<close> is
  \<open>utils.IsSelling\<close>, \<open>ParseFloat\<close> is \<open>strconv.ParseFloat\<close> at 64 bits (\<open>None\<close> for its
  error) and \<open>Sprintf7\<close> is \<open>fmt.Sprintf\<close> with the format \<open>%.7f\<close>.
\<close>

record stringAPI =
  IsSelling :: "asset \<Rightarrow> asset \<Rightarrow> asset \<Rightarrow> asset \<Rightarrow> error + bool"
  ParseFloat :: "string \<Rightarrow> float64 option"
  Sprintf7 :: "float64 \<Rightarrow> string"

text \<open>
  The base-units check of \<open>volumeFilterFn\<close>: from the operation and the amount being sold to
  the operation to return, the new amount being sold and \<open>keepSellingBase\<close>.
\<close>

definition checkBaseUnits ::
  "stringAPI \<Rightarrow> volumeFilter \<Rightarrow> dailyVolume \<Rightarrow> dailyVolume \<Rightarrow> manageSellOffer \<Rightarrow> float64 \<Rightarrow>
   manageSellOffer \<times> float64 \<times> bool" where
  "checkBaseUnits L f dailyOTB dailyTBB op amountValueUnitsBeingSold =
     (case SellBaseAssetCapInBaseUnits (vf_config f) of
        None \<Rightarrow> (op, amountValueUnitsBeingSold, True)
      | Some cap \<Rightarrow>
          let projectedSoldInBaseUnits = BaseVol dailyOTB + BaseVol dailyTBB + amountValueUnitsBeingSold;
              keepSellingBase = (projectedSoldInBaseUnits \<le> cap)
          in if mode (vf_config f) = volumeFilterModeExact \<and> \<not> keepSellingBase then
               let newAmount = cap - BaseVol dailyOTB - BaseVol dailyTBB
               in if newAmount > 0
                  then (op\<lparr>op_Amount := Sprintf7 L newAmount\<rparr>, newAmount, True)
                  else (op, amountValueUnitsBeingSold, keepSellingBase)
             else (op, amountValueUnitsBeingSold, keepSellingBase))"

text \<open>The quote-units check, on the amount the base-units check left.\<close>

definition checkQuoteUnits ::
  "stringAPI \<Rightarrow> volumeFilter \<Rightarrow> dailyVolume \<Rightarrow> dailyVolume \<Rightarrow> manageSellOffer \<Rightarrow> float64 \<Rightarrow>
   float64 \<Rightarrow> manageSellOffer \<times> float64 \<times> bool" where
  "checkQuoteUnits L f dailyOTB dailyTBB opToReturn newAmountBeingSold sellPrice =
     (case SellBaseAssetCapInQuoteUnits (vf_config f) of
        None \<Rightarrow> (opToReturn, newAmountBeingSold, True)
      | Some cap \<Rightarrow>
          let projectedSoldInQuoteUnits =
                QuoteVol dailyOTB + QuoteVol dailyTBB + (newAmountBeingSold * sellPrice);
              keepSellingQuote = (projectedSoldInQuoteUnits \<le> cap)
          in if mode (vf_config f) = volumeFilterModeExact \<and> \<not> keepSellingQuote then
               let newAmount = (cap - QuoteVol dailyOTB - QuoteVol dailyTBB) / sellPrice
               in if newAmount > 0
                  then (opToReturn\<lparr>op_Amount := Sprintf7 L newAmount\<rparr>, newAmount, True)
                  else (opToReturn, newAmountBeingSold, keepSellingQuote)
             else (opToReturn, newAmountBeingSold, keepSellingQuote))"

text \<open>
  The result of \<open>volumeFilterFn\<close> is the returned operation (\<open>None\<close> for the dropped one) or
  the error, the operation behind the pointer \<open>op\<close> after the call (\<open>opToReturn\<close> is the
  same pointer, so a shrink rewrites the caller's operation) and \<open>dailyTBB\<close> after the call.
\<close>

definition volumeFilterFn ::
  "stringAPI \<Rightarrow> volumeFilter \<Rightarrow> dailyVolume \<Rightarrow> dailyVolume \<Rightarrow> manageSellOffer \<Rightarrow>
   (error + manageSellOffer option) \<times> manageSellOffer \<times> dailyVolume" where
  "volumeFilterFn L f dailyOTB dailyTBB op =
     (case IsSelling L (vf_baseAsset f) (vf_quoteAsset f) (op_Selling op) (op_Buying op) of
        Inl e \<Rightarrow> (Inl (Wrapped ''error when running the isSelling check for offer'' e), op, dailyTBB)
      | Inr isSell \<Rightarrow>
     (case ParseFloat L (op_Price op) of
        None \<Rightarrow> (Inl (Error ''could not convert price to float''), op, dailyTBB)
      | Some sellPrice \<Rightarrow>
     (case ParseFloat L (op_Amount op) of
        None \<Rightarrow> (Inl (Error ''could not convert amount to float''), op, dailyTBB)
      | Some amountValueUnitsBeingSold \<Rightarrow>
          if isSell then
            (case checkBaseUnits L f dailyOTB dailyTBB op amountValueUnitsBeingSold of
               (op1, newAmount1, keepSellingBase) \<Rightarrow>
            (case checkQuoteUnits L f dailyOTB dailyTBB op1 newAmount1 sellPrice of
               (opToReturn, newAmountBeingSold, keepSellingQuote) \<Rightarrow>
                 if keepSellingBase \<and> keepSellingQuote then
                   (Inr (Some opToReturn), opToReturn,
                    \<lparr>BaseVol = BaseVol dailyTBB + newAmountBeingSold,
                     QuoteVol = QuoteVol dailyTBB + (newAmountBeingSold * sellPrice)\<rparr>)
                 else (Inr None, opToReturn, dailyTBB)))
          else (Inr None, op, dailyTBB))))"

text \<open>
  \<open>Apply\<close> reads the day's totals once, starts \<open>dailyTBB\<close> at zero and hands the closure over
  \<open>volumeFilterFn\<close> to \<open>filterOps\<close>, which is not among the sources and is a parameter here.
  \<open>queryResult\<close> is what \<open>QueryRow\<close> returned: an error, a value of another type (\<open>None\<close>)
  or the day's volume.
\<close>

definition Apply ::
  "stringAPI \<Rightarrow>
   (volumeFilter \<Rightarrow> 'o list \<Rightarrow>
      (dailyVolume \<Rightarrow> manageSellOffer \<Rightarrow>
         (error + manageSellOffer option) \<times> manageSellOffer \<times> dailyVolume) \<Rightarrow>
      dailyVolume \<Rightarrow> error + 'o list) \<Rightarrow>
   volumeFilter \<Rightarrow> (error + dailyVolume option) \<Rightarrow> 'o list \<Rightarrow> error + 'o list" where
  "Apply L filterOps f queryResult ops =
     (case queryResult of
        Inl e \<Rightarrow> Inl (Wrapped ''could not load dailyValuesByDate for today'' e)
      | Inr None \<Rightarrow> Inl (Error ''incorrect type returned from DailyVolumeByDate query'')
      | Inr (Some dailyValuesBaseSold) \<Rightarrow>
          let dailyOTB = dailyValuesBaseSold;
              dailyTBB = \<lparr>BaseVol = 0.0, QuoteVol = 0.0\<rparr>
          in (case filterOps f ops (\<lambda>tbb op. volumeFilterFn L f dailyOTB tbb op) dailyTBB of
                Inl e \<Rightarrow> Inl (Wrapped ''could not apply filter'' e)
              | Inr ops' \<Rightarrow> Inr ops'))"

section \<open>The TWAP level provider\<close>

definition secondsInHour :: int where
  "secondsInHour = 60 * 60"

definition secondsInDay :: int where
  "secondsInDay = 24 * secondsInHour"

text \<open>
  \<open>bucketID\<close> is an \<open>int64\<close> that stays below the number of seconds of a day, so it is an
  \<open>int\<close> here; \<open>roundID\<close> is a \<open>uint64\<close> that only ever grows by one and wraps.
\<close>

type_synonym bucketID = int

type_synonym roundID = "64 word"

record dynamicBucketValues =
  isNew :: bool
  dyn_roundID :: roundID
  dayBaseSold :: float64
  baseSold :: float64

text \<open>Times are Unix seconds in UTC.\<close>

record bucketInfo =
  bucket_ID :: bucketID
  startTime :: int
  endTime :: int
  totalBuckets :: int
  totalBucketsTargeted :: int
  dayBaseSoldStart :: float64
  dayBaseCapacity :: float64
  baseSurplusIncluded :: float64
  baseCapacity :: float64
  minOrderSizeBase :: float64
  dynamicValues :: dynamicBucketValues

definition dayBaseRemaining :: "bucketInfo \<Rightarrow> float64" where
  "dayBaseRemaining b = dayBaseCapacity b - dayBaseSold (dynamicValues b)"

definition baseRemaining :: "bucketInfo \<Rightarrow> float64" where
  "baseRemaining b = baseCapacity b - baseSold (dynamicValues b)"

record roundInfo =
  round_ID :: roundID
  round_bucketID :: bucketID
  round_now :: int
  secondsElapsedToday :: int
  sizeBaseCapped :: float64
  round_price :: float64

text \<open>
  The provider's own fields. \<open>'g\<close> is the state of the generator \<open>random\<close>; the price feed,
  the rate offset and the seven volume filters are collaborators and come with each call.
\<close>

record ('n, 'g) sellTwapLevelProvider =
  orderConstraints :: "'n orderConstraints"
  numHoursToSell :: int
  parentBucketSizeSeconds :: int
  distributeSurplusOverRemainingIntervalsPercentCeiling :: float64
  exponentialSmoothingFactor :: float64
  minChildOrderSizePercentOfParent :: float64
  random :: "'g"
  activeBucket :: "bucketInfo option"
  previousRoundID :: "roundID option"

text \<open>
  The factory's checks, in their order. \<open>dowFilterSelling\<close> holds \<open>isSellingBase()\<close> of
  the seven filters; \<open>rng\<close> is the generator made from the seed.
\<close>

definition makeSellTwapLevelProvider ::
  "'n orderConstraints \<Rightarrow> bool list \<Rightarrow> int \<Rightarrow> int \<Rightarrow> float64 \<Rightarrow> float64 \<Rightarrow> float64 \<Rightarrow> 'g \<Rightarrow>
   error + ('n, 'g) sellTwapLevelProvider" where
  "makeSellTwapLevelProvider oc dowFilterSelling hoursToSell bucketSizeSeconds ceilingPercent
       smoothingFactor minChildPercent rng =
     (if hoursToSell \<le> 0 \<or> hoursToSell > 24 then
        Inl (Error ''invalid number of hours to sell'')
      else if bucketSizeSeconds \<le> 0 \<or> bucketSizeSeconds > secondsInDay then
        Inl (Error ''invalid value for parentBucketSizeSeconds'')
      else if secondsInDay mod bucketSizeSeconds \<noteq> 0 then
        Inl (Error ''parentBucketSizeSeconds needs to perfectly divide secondsInDay'')
      else if ceilingPercent < 0.0 \<or> ceilingPercent > 1.0 then
        Inl (Error ''distributeSurplusOverRemainingIntervalsPercentCeiling is invalid'')
      else if smoothingFactor < 0.0 \<or> smoothingFactor > 1.0 then
        Inl (Error ''exponentialSmoothingFactor is invalid'')
      else if minChildPercent < 0.0 \<or> minChildPercent > 1.0 then
        Inl (Error ''minChildOrderSizePercentOfParent is invalid'')
      else if \<not> list_all (\<lambda>b. b) dowFilterSelling then
        Inl (Error ''volume filter was not selling the base asset as expected'')
      else
        Inr \<lparr>orderConstraints = oc,
             numHoursToSell = hoursToSell,
             parentBucketSizeSeconds = bucketSizeSeconds,
             distributeSurplusOverRemainingIntervalsPercentCeiling = ceilingPercent,
             exponentialSmoothingFactor = smoothingFactor,
             minChildOrderSizePercentOfParent = minChildPercent,
             random = rng,
             activeBucket = None,
             previousRoundID = None\<rparr>)"

text \<open>
  What one call of \<open>GetLevels\<close> gets from outside: the clock, the answers of the volume
  filter of each weekday (\<open>mustGetBaseAssetCapInBaseUnits\<close> and the base volume of
  \<open>dailyValuesByDate\<close> for today), the price feed's answer, the rate offset and the
  generator's \<open>Float64\<close>. That volume filter is not the one among the sources.
\<close>

record twapVolumeFilter =
  mustGetBaseAssetCapInBaseUnits :: "error + float64"
  dailyValuesByDate :: "error + float64"

record 'g twapEnv =
  env_now :: int
  dowFilter :: "nat \<Rightarrow> twapVolumeFilter"
  GetPrice :: "error + float64"
  offsetApply :: "float64 \<Rightarrow> float64 \<times> bool"
  Float64 :: "'g \<Rightarrow> float64 \<times> 'g"

definition floorDate :: "int \<Rightarrow> int" where
  "floorDate t = t - t mod secondsInDay"

definition ceilDate :: "int \<Rightarrow> int" where
  "ceilDate t = floorDate t + secondsInDay"

text \<open>\<open>time.Weekday\<close>: Sunday is 0, and the first of January 1970 was a Thursday.\<close>

definition Weekday :: "int \<Rightarrow> nat" where
  "Weekday t = nat ((t div secondsInDay + 4) mod 7)"

definition makeFirstBucketFrame ::
  "('n, 'g) sellTwapLevelProvider \<Rightarrow> int \<Rightarrow> twapVolumeFilter \<Rightarrow> int \<Rightarrow> int \<Rightarrow> bucketID \<Rightarrow> roundID \<Rightarrow>
   error + bucketInfo" where
  "makeFirstBucketFrame p now volFilter start secondsElapsed bID rID =
     (let endT = ceilDate now;
          totalB = \<lceil>real_of_int (endT - start) / real_of_int (parentBucketSizeSeconds p)\<rceil>;
          totalBTargeted = \<lceil>real_of_int (numHoursToSell p * secondsInHour)
                             / real_of_int (parentBucketSizeSeconds p)\<rceil>
      in case mustGetBaseAssetCapInBaseUnits volFilter of
           Inl e \<Rightarrow> Inl (Wrapped ''could not fetch base asset cap in base units'' e)
         | Inr dayCapacity \<Rightarrow>
      (case dailyValuesByDate volFilter of
           Inl e \<Rightarrow> Inl (Wrapped ''could not fetch daily values for today'' e)
         | Inr baseVol \<Rightarrow>
             let daySoldStart = baseVol;
                 baseSurplus0 = 0.0;
                 capacity = dayCapacity / real_of_int totalBTargeted;
                 minOrderSize = minChildOrderSizePercentOfParent p * capacity
             in Inr \<lparr>bucket_ID = bID,
                     startTime = start,
                     endTime = endT,
                     totalBuckets = totalB,
                     totalBucketsTargeted = totalBTargeted,
                     dayBaseSoldStart = daySoldStart,
                     dayBaseCapacity = dayCapacity,
                     baseSurplusIncluded = baseSurplus0,
                     baseCapacity = capacity,
                     minOrderSizeBase = minOrderSize,
                     dynamicValues = \<lparr>isNew = True, dyn_roundID = rID,
                                       dayBaseSold = daySoldStart, baseSold = 0.0\<rparr>\<rparr>))"

definition updateExistingBucket ::
  "bucketInfo \<Rightarrow> twapVolumeFilter \<Rightarrow> roundID \<Rightarrow> error + bucketInfo" where
  "updateExistingBucket active volFilter rID =
     (case dailyValuesByDate volFilter of
        Inl e \<Rightarrow> Inl (Wrapped ''could not fetch daily values for today'' e)
      | Inr daySold \<Rightarrow>
          Inr (active\<lparr>dynamicValues :=
                 \<lparr>isNew = False, dyn_roundID = rID, dayBaseSold = daySold,
                  baseSold = daySold - dayBaseSoldStart active\<rparr>\<rparr>))"

text \<open>
  \<open>math.Ceil\<close> of the product is an integer, and \<open>math.Pow\<close> at an integer exponent is the
  integer power.
\<close>

definition firstDistributionOfBaseSurplus ::
  "('n, 'g) sellTwapLevelProvider \<Rightarrow> float64 \<Rightarrow> int \<Rightarrow> float64" where
  "firstDistributionOfBaseSurplus p totalSurplus totalRemainingBuckets =
     (let Sn = totalSurplus;
          r = exponentialSmoothingFactor p;
          n = \<lceil>distributeSurplusOverRemainingIntervalsPercentCeiling p
                 * real_of_int totalRemainingBuckets\<rceil>;
          a = Sn * (r - 1.0) / (power_int r n - 1.0)
      in a)"

definition cutoverToNewBucket ::
  "('n, 'g) sellTwapLevelProvider \<Rightarrow> bucketInfo \<Rightarrow> int \<Rightarrow> twapVolumeFilter \<Rightarrow> int \<Rightarrow> int \<Rightarrow>
   bucketID \<Rightarrow> roundID \<Rightarrow> error + bucketInfo" where
  "cutoverToNewBucket p active now volFilter start secondsElapsed bID rID =
     (if bID \<noteq> bucket_ID active + 1 then
        Inl (Error ''new bucketID was not one more than the previous bucketID'')
      else
        (case makeFirstBucketFrame p now volFilter start secondsElapsed bID rID of
           Inl e \<Rightarrow>
             Inl (Wrapped ''unable to make first bucket frame when cutting over with new bucketID'' e)
         | Inr bucket \<Rightarrow>
             let thisBucketDayBaseSoldStart = dayBaseSold (dynamicValues active);
                 thisBucketDayBaseSold = dayBaseSoldStart bucket;
                 averageBaseCapacity = baseCapacity bucket;
                 numPreviousBuckets = bID;
                 expectedSold = averageBaseCapacity * real_of_int numPreviousBuckets;
                 totalSurplus = expectedSold - thisBucketDayBaseSoldStart;
                 totalRemainingBuckets = totalBuckets bucket - numPreviousBuckets;
                 surplusIncluded = firstDistributionOfBaseSurplus p totalSurplus totalRemainingBuckets
             in Inr (bucket\<lparr>dayBaseSoldStart := thisBucketDayBaseSoldStart,
                            dynamicValues :=
                              \<lparr>isNew = True, dyn_roundID = rID,
                               dayBaseSold = thisBucketDayBaseSold,
                               baseSold = thisBucketDayBaseSold - thisBucketDayBaseSoldStart\<rparr>,
                            baseSurplusIncluded := surplusIncluded,
                            baseCapacity := averageBaseCapacity + surplusIncluded\<rparr>)))"

text \<open>
  The quotient of the two \<open>int64\<close> truncates towards zero, and a zero divisor panics; the
  factory lets only positive bucket sizes through.
\<close>

definition makeBucketInfo ::
  "('n, 'g) sellTwapLevelProvider \<Rightarrow> int \<Rightarrow> twapVolumeFilter \<Rightarrow> roundID \<Rightarrow> error + bucketInfo" where
  "makeBucketInfo p now volFilter rID =
     (let start = floorDate now;
          secondsElapsed = now - start
      in if parentBucketSizeSeconds p = 0 then Inl (Fatal ''integer divide by zero'')
         else
           let bID = secondsElapsed sdiv parentBucketSizeSeconds p
           in (case activeBucket p of
                 None \<Rightarrow>
                   (case makeFirstBucketFrame p now volFilter start secondsElapsed bID rID of
                      Inl e \<Rightarrow> Inl (Wrapped ''could not make first bucket'' e)
                    | Inr bucket \<Rightarrow> Inr bucket)
               | Some active \<Rightarrow>
                   if bID = bucket_ID active then
                     (case updateExistingBucket active volFilter rID of
                        Inl e \<Rightarrow> Inl (Wrapped ''could not update existing bucket'' e)
                      | Inr bucket \<Rightarrow> Inr bucket)
                   else cutoverToNewBucket p active now volFilter start secondsElapsed bID rID))"

definition makeRoundID :: "('n, 'g) sellTwapLevelProvider \<Rightarrow> roundID" where
  "makeRoundID p = (case previousRoundID p of None \<Rightarrow> 0 | Some r \<Rightarrow> r + 1)"

text \<open>
  \<open>makeRoundInfo\<close> draws from the generator before it asks for the price, so the result
  comes with the generator's state after the call, also when the price feed fails.
\<close>

definition makeRoundInfo ::
  "('n, 'g) sellTwapLevelProvider \<Rightarrow> 'g twapEnv \<Rightarrow> roundID \<Rightarrow> int \<Rightarrow> bucketInfo \<Rightarrow>
   (error + roundInfo) \<times> 'g" where
  "makeRoundInfo p env rID now bucket =
     (let elapsed = now - startTime bucket;
          (size, rng) =
            (if baseRemaining bucket \<le> minOrderSizeBase bucket then (baseRemaining bucket, random p)
             else (case Float64 env (random p) of
                     (u, rng') \<Rightarrow>
                       (minOrderSizeBase bucket
                          + (u * (baseRemaining bucket - minOrderSizeBase bucket)), rng')))
      in case GetPrice env of
           Inl e \<Rightarrow> (Inl (Wrapped ''could not get price from feed'' e), rng)
         | Inr price \<Rightarrow>
             (case offsetApply env price of
                (adjustedPrice, wasModified) \<Rightarrow>
                  (Inr \<lparr>round_ID = rID,
                        round_bucketID = bucket_ID bucket,
                        round_now = now,
                        secondsElapsedToday = elapsed,
                        sizeBaseCapped = size,
                        round_price = adjustedPrice\<rparr>, rng)))"

record 'n level =
  level_Price :: "'n"
  level_Amount :: "'n"

text \<open>
  \<open>GetLevels\<close>: the returned levels or the error, and the provider after the call.
\<close>

definition GetLevels ::
  "'n numberAPI \<Rightarrow> ('n, 'g) sellTwapLevelProvider \<Rightarrow> 'g twapEnv \<Rightarrow>
   (error + 'n level list) \<times> ('n, 'g) sellTwapLevelProvider" where
  "GetLevels N p env =
     (let now = env_now env;
          volFilter = dowFilter env (Weekday now);
          rID = makeRoundID p
      in case makeBucketInfo p now volFilter rID of
           Inl e \<Rightarrow> (Inl (Wrapped ''unable to make bucketInfo'' e), p)
         | Inr bucket \<Rightarrow>
             (case makeRoundInfo p env rID now bucket of
                (Inl e, rng) \<Rightarrow> (Inl (Wrapped ''unable to make roundInfo'' e), p\<lparr>random := rng\<rparr>)
              | (Inr rnd, rng) \<Rightarrow>
                  (Inr [\<lparr>level_Price = NumberFromFloat N (round_price rnd)
                                         (PricePrecision (orderConstraints p)),
                         level_Amount = NumberFromFloat N (sizeBaseCapped rnd)
                                          (VolumePrecision (orderConstraints p))\<rparr>],
                   p\<lparr>random := rng,
                     activeBucket := Some bucket,
                     previousRoundID := Some (round_ID rnd)\<rparr>)))"

section \<open>Concrete collaborators for evaluation\<close>

subsection \<open>A decimal Number\<close>

text \<open>
  Modelled from the spec: \<open>model.Number\<close>, whose package is not among the sources. The
  spec describes it as a fixed-precision decimal value carrying its own precision (digits
  after the decimal point), whose arithmetic rounds at the stated precision and whose
  equality is an epsilon tolerance after normalising to matching precision. It is used
  where a theorem is evaluated at a concrete input; the general theorems hold for every
  \<open>numberAPI\<close>.
\<close>

record number =
  num_value :: float64
  num_precision :: int

definition toFixed :: "float64 \<Rightarrow> int \<Rightarrow> float64" where
  "toFixed x p = real_of_int (round (x * 10 ^ nat p)) / 10 ^ nat p"

definition numberFromFloat :: "float64 \<Rightarrow> int \<Rightarrow> number" where
  "numberFromFloat x p = \<lparr>num_value = toFixed x p, num_precision = p\<rparr>"

definition minPrecision :: "number \<Rightarrow> number \<Rightarrow> int" where
  "minPrecision a b = min (num_precision a) (num_precision b)"

definition digitOf :: "char \<Rightarrow> nat option" where
  "digitOf c = (let n = (of_char c :: nat) in if 48 \<le> n \<and> n \<le> 57 then Some (n - 48) else None)"

fun digitsValue :: "string \<Rightarrow> nat \<Rightarrow> nat option" where
  "digitsValue [] acc = Some acc"
| "digitsValue (c # cs) acc =
     (case digitOf c of None \<Rightarrow> None | Some d \<Rightarrow> digitsValue cs (10 * acc + d))"

text \<open>Plain decimal notation only: digits, then optionally a point and digits.\<close>

definition parseDecimal :: "string \<Rightarrow> float64 option" where
  "parseDecimal s =
     (let ip = takeWhile (\<lambda>c. c \<noteq> CHR ''.'') s;
          fp = drop 1 (dropWhile (\<lambda>c. c \<noteq> CHR ''.'') s)
      in if ip = [] then None
         else (case (digitsValue ip 0, digitsValue fp 0) of
                 (Some i, Some f) \<Rightarrow> Some (real i + real f / 10 ^ length fp)
               | _ \<Rightarrow> None))"

definition decimalNumber :: "number numberAPI" where
  "decimalNumber =
     \<lparr>AsFloat = num_value,
      Scale = (\<lambda>n k. numberFromFloat (num_value n * k) (num_precision n)),
      Multiply = (\<lambda>a b. numberFromFloat (num_value a * num_value b) (minPrecision a b)),
      Add = (\<lambda>a b. numberFromFloat (num_value a + num_value b) (minPrecision a b)),
      Subtract = (\<lambda>a b. numberFromFloat (num_value a - num_value b) (minPrecision a b)),
      EqualsPrecisionNormalized =
        (\<lambda>a b epsilon. \<bar>toFixed (num_value a) (minPrecision a b)
                          - toFixed (num_value b) (minPrecision a b)\<bar> < epsilon),
      InvertNumber = (\<lambda>n. numberFromFloat (1 / num_value n) (num_precision n)),
      NumberByCappingPrecision =
        (\<lambda>n p. if num_precision n > p then numberFromFloat (num_value n) p else n),
      MustNumberFromString = (\<lambda>s p. map_option (\<lambda>x. numberFromFloat x p) (parseDecimal s)),
      NumberFromFloat = numberFromFloat,
      Zero = numberFromFloat 0 16\<rparr>"

subsection \<open>A market, its offers and its venue\<close>

text \<open>
  A strategy that mirrors a backing venue with two decimals and a minimum volume of 1 onto
  a primary venue with seven decimals; one live offer selling 10 at the price 2.
\<close>

definition sampleStrategy :: "number mirrorStrategy" where
  "sampleStrategy =
     \<lparr>baseAsset = ''XLM'', quoteAsset = ''USD'',
      primaryConstraints =
        \<lparr>PricePrecision = 7, VolumePrecision = 7, MinBaseVolume = numberFromFloat 0 7\<rparr>,
      backingPair = \<lparr>pair_Base = ''XLM'', pair_Quote = ''USD''\<rparr>,
      backingConstraints =
        \<lparr>PricePrecision = 2, VolumePrecision = 2, MinBaseVolume = numberFromFloat 1 2\<rparr>,
      orderbookDepth = 10, perLevelSpread = 0, volumeDivideBy = 1, offsetTrades = True,
      baseSurplus = (\<lambda>a. makeAssetSurplus decimalNumber)\<rparr>"

definition sampleOffer :: offer where
  "sampleOffer = \<lparr>offer_ID = 1, offer_Selling = ''XLM'', offer_Buying = ''USD'',
                   offer_Amount = ''10'', offer_Price = ''2''\<rparr>"

definition limitOrder :: "orderAction \<Rightarrow> float64 \<Rightarrow> float64 \<Rightarrow> number order" where
  "limitOrder a p v =
     \<lparr>order_Pair = \<lparr>pair_Base = ''XLM'', pair_Quote = ''USD''\<rparr>, order_Action = a,
      order_Type = OrderTypeLimit, order_Price = numberFromFloat p 2,
      order_Volume = numberFromFloat v 2, order_Timestamp = None\<rparr>"

text \<open>
  A venue whose builders take every offer (the builder is the price and the amount), and a
  \<open>modifyOffer\<close> that gives \<open>nil\<close> back; no native fee; prices read as decimals.
\<close>

definition noNativeAmount :: "bool \<Rightarrow> float64" where
  "noNativeAmount includeFee = 0"

definition acceptModify :: "(float64 \<times> float64) modifyOfferFn" where
  "acceptModify sdex oldOffer price amount incrementalNative = Inr (Some (price, amount))"

definition abandonModify :: "(float64 \<times> float64) modifyOfferFn" where
  "abandonModify sdex oldOffer price amount incrementalNative = Inr None"

definition acceptCreate :: "(float64 \<times> float64) createOfferFn" where
  "acceptCreate sdex base quote price amount incrementalNative = Inr (Some (price, amount))"

definition sampleBuilders :: "(float64 \<times> float64) sdexBuilders" where
  "sampleBuilders = \<lparr>ModifyBuyOffer = acceptModify, CreateBuyOffer = acceptCreate,
                      ModifySellOffer = acceptModify, CreateSellOffer = acceptCreate\<rparr>"

definition samplePriceAsFloat :: "string \<Rightarrow> float64" where
  "samplePriceAsFloat s = (case parseDecimal s of None \<Rightarrow> 0 | Some x \<Rightarrow> x)"

subsection \<open>Fills and surpluses\<close>

text \<open>
  A strategy with 1.23456 pending and nothing committed, one with nothing pending, a fill
  of 0.7 and one of 0.2, and a backing venue that rejects the order or hands back no
  transaction identifier.
\<close>

definition surplusStrategy :: "number mirrorStrategy" where
  "surplusStrategy = sampleStrategy\<lparr>baseSurplus :=
      (\<lambda>a. \<lparr>total = numberFromFloat 1.23456 7, committed = numberFromFloat 0 7\<rparr>)\<rparr>"

definition sampleTrade :: "number trade" where
  "sampleTrade = \<lparr>trade_OrderAction = OrderActionBuy, trade_Price = numberFromFloat 2 7,
                   trade_Volume = numberFromFloat 0.7 7, trade_TransactionID = ''t1''\<rparr>"

definition rejectOrder :: "number order \<Rightarrow> error + string option" where
  "rejectOrder newOrder = Inl (Error ''rejected'')"

definition nilTransactionID :: "number order \<Rightarrow> error + string option" where
  "nilTransactionID newOrder = Inr None"

definition emptySurplusStrategy :: "number mirrorStrategy" where
  "emptySurplusStrategy = sampleStrategy\<lparr>baseSurplus :=
      (\<lambda>a. \<lparr>total = numberFromFloat 0 7, committed = numberFromFloat 0 7\<rparr>)\<rparr>"

definition smallTrade :: "number trade" where
  "smallTrade = \<lparr>trade_OrderAction = OrderActionBuy, trade_Price = numberFromFloat 2 7,
                  trade_Volume = numberFromFloat 0.2 7, trade_TransactionID = ''t2''\<rparr>"

subsection \<open>Strings and a volume filter\<close>

text \<open>
  Decimal digits of a natural number, and \<open>%.7f\<close> on a real: rounded to seven decimals,
  the fraction padded with zeros.
\<close>

function natDigits :: "nat \<Rightarrow> string" where
  "natDigits n =
     (if n < 10 then [''0123456789'' ! n]
      else natDigits (n div 10) @ [''0123456789'' ! (n mod 10)])"
  by pat_completeness auto
termination
  by (relation "measure (\<lambda>n. n)") auto

declare natDigits.simps [simp del]

definition sprintf7 :: "float64 \<Rightarrow> string" where
  "sprintf7 x =
     (let scaled = nat (round (\<bar>x\<bar> * 10 ^ 7));
          fraction = natDigits (scaled mod 10 ^ 7)
      in (if x < 0 then ''-'' else '''') @ natDigits (scaled div 10 ^ 7) @ ''.''
           @ replicate (7 - length fraction) (CHR ''0'') @ fraction)"

definition sampleIsSelling :: "asset \<Rightarrow> asset \<Rightarrow> asset \<Rightarrow> asset \<Rightarrow> error + bool" where
  "sampleIsSelling base quote selling buying =
     (if selling = base \<and> buying = quote then Inr True
      else if selling = quote \<and> buying = base then Inr False
      else Inl (Error ''invalid assets''))"

definition sampleStrings :: stringAPI where
  "sampleStrings = \<lparr>IsSelling = sampleIsSelling, ParseFloat = parseDecimal, Sprintf7 = sprintf7\<rparr>"

text \<open>
  A filter in exact mode with the base-units cap 100 and no quote-units cap; a sell of 30 at
  the price 2, a later sell of 5, and a buy of 30.
\<close>

definition sampleFilter :: volumeFilter where
  "sampleFilter =
     \<lparr>vf_name = ''volumeFilter'', vf_baseAsset = ''XLM'', vf_quoteAsset = ''USD'',
      vf_config = \<lparr>SellBaseAssetCapInBaseUnits = Some 100, SellBaseAssetCapInQuoteUnits = None,
                   mode = volumeFilterModeExact, additionalMarketIDs = []\<rparr>\<rparr>"

definition sampleSellOp :: manageSellOffer where
  "sampleSellOp = \<lparr>op_Selling = ''XLM'', op_Buying = ''USD'', op_Amount = ''30'',
                    op_Price = ''2'', op_OfferID = 0\<rparr>"

definition laterSellOp :: manageSellOffer where
  "laterSellOp = \<lparr>op_Selling = ''XLM'', op_Buying = ''USD'', op_Amount = ''5'',
                   op_Price = ''2'', op_OfferID = 0\<rparr>"

definition sampleBuyOp :: manageSellOffer where
  "sampleBuyOp = \<lparr>op_Selling = ''USD'', op_Buying = ''XLM'', op_Amount = ''30'',
                   op_Price = ''0.5'', op_OfferID = 0\<rparr>"

subsection \<open>A level provider and its surroundings\<close>

text \<open>
  Two buckets of twelve hours, a day's cap of 16, smoothing factor one half, the whole
  remaining day as the horizon; a generator that always draws one half; a volume filter
  that has sold nothing, and one whose query fails.
\<close>

definition sampleProvider :: "(number, nat) sellTwapLevelProvider" where
  "sampleProvider =
     \<lparr>orderConstraints =
        \<lparr>PricePrecision = 7, VolumePrecision = 7, MinBaseVolume = numberFromFloat 0 7\<rparr>,
      numHoursToSell = 24,
      parentBucketSizeSeconds = 43200,
      distributeSurplusOverRemainingIntervalsPercentCeiling = 1,
      exponentialSmoothingFactor = 1 / 2,
      minChildOrderSizePercentOfParent = 1 / 10,
      random = 0,
      activeBucket = None,
      previousRoundID = None\<rparr>"

definition sampleVolumeFilter :: twapVolumeFilter where
  "sampleVolumeFilter = \<lparr>mustGetBaseAssetCapInBaseUnits = Inr 16, dailyValuesByDate = Inr 0\<rparr>"

definition failingVolumeFilter :: twapVolumeFilter where
  "failingVolumeFilter =
     \<lparr>mustGetBaseAssetCapInBaseUnits = Inr 16, dailyValuesByDate = Inl (Error ''query failed'')\<rparr>"

definition halfGenerator :: "nat \<Rightarrow> float64 \<times> nat" where
  "halfGenerator g = (1 / 2, g + 1)"

definition noOffset :: "float64 \<Rightarrow> float64 \<times> bool" where
  "noOffset price = (price, False)"

definition sampleEnv :: "int \<Rightarrow> nat twapEnv" where
  "sampleEnv t = \<lparr>env_now = t, dowFilter = (\<lambda>d. sampleVolumeFilter), GetPrice = Inr 2,
                   offsetApply = noOffset, Float64 = halfGenerator\<rparr>"

definition failingQueryEnv :: "int \<Rightarrow> nat twapEnv" where
  "failingQueryEnv t = \<lparr>env_now = t, dowFilter = (\<lambda>d. failingVolumeFilter), GetPrice = Inr 2,
                         offsetApply = noOffset, Float64 = halfGenerator\<rparr>"

definition failingPriceEnv :: "int \<Rightarrow> nat twapEnv" where
  "failingPriceEnv t = \<lparr>env_now = t, dowFilter = (\<lambda>d. sampleVolumeFilter),
                         GetPrice = Inl (Error ''feed down''),
                         offsetApply = noOffset, Float64 = halfGenerator\<rparr>"

text \<open>The first bucket of the day, as the first call at midnight leaves it.\<close>

definition sampleBucket :: bucketInfo where
  "sampleBucket =
     \<lparr>bucket_ID = 0, startTime = 0, endTime = 86400, totalBuckets = 2, totalBucketsTargeted = 2,
      dayBaseSoldStart = 0, dayBaseCapacity = 16, baseSurplusIncluded = 0, baseCapacity = 8,
      minOrderSizeBase = 4 / 5,
      dynamicValues = \<lparr>isNew = True, dyn_roundID = 0, dayBaseSold = 0, baseSold = 0\<rparr>\<rparr>"

definition activeProvider :: "(number, nat) sellTwapLevelProvider" where
  "activeProvider =
     sampleProvider\<lparr>random := 1, activeBucket := Some sampleBucket, previousRoundID := Some 0\<rparr>"

text \<open>The same provider with the day's last bucket active.\<close>

definition lastBucketProvider :: "(number, nat) sellTwapLevelProvider" where
  "lastBucketProvider =
     sampleProvider\<lparr>random := 1, activeBucket := Some (sampleBucket\<lparr>bucket_ID := 1\<rparr>),
                     previousRoundID := Some 0\<rparr>"


section \<open>Properties of the reconciler\<close>

subsection \<open>The shape of the returned lists\<close>

lemma doModifyOffer_shape:
  assumes "doModifyOffer N incr s oldOffer newOrder pm modifyOffer hack sdex = (Inr (m, d), sdex')"
  shows "(m = None \<or> (\<exists>b. m = Some (ModifyOffer b))) \<and> (d = None \<or> d = Some (DeleteOffer oldOffer))"
  using assms
  by (auto simp: doModifyOffer_def Let_def split: option.splits if_splits sum.splits)

lemma modifyLevels_shape:
  assumes "modifyLevels N incr s pm modifyOffer hack oldOffers newOrders ops deleteOps sdex
             = (Inr (ops', deleteOps'), sdex')"
  shows "\<exists>ms ds. ops' = ops @ ms \<and> deleteOps' = deleteOps @ ds
           \<and> list_all (\<lambda>x. \<not> isDelete x) ms \<and> list_all isDelete ds"
  using assms
proof (induction N incr s pm modifyOffer hack oldOffers newOrders ops deleteOps sdex
        rule: modifyLevels.induct)
  case (1 N incr s pm modifyOffer hack oldOffer oldOffers newOrder newOrders ops deleteOps sdex)
  obtain r sdex1 where r: "doModifyOffer N incr s oldOffer newOrder pm modifyOffer hack sdex = (r, sdex1)"
    by (cases "doModifyOffer N incr s oldOffer newOrder pm modifyOffer hack sdex")
  show ?case
  proof (cases r)
    case (Inl e)
    with r "1.prems" show ?thesis by simp
  next
    case (Inr md)
    obtain m d where md: "md = (m, d)" by (cases md)
    have shape: "(m = None \<or> (\<exists>b. m = Some (ModifyOffer b))) \<and> (d = None \<or> d = Some (DeleteOffer oldOffer))"
      using doModifyOffer_shape r Inr md by metis
    have rec: "modifyLevels N incr s pm modifyOffer hack oldOffers newOrders
            (case m of None \<Rightarrow> ops | Some x \<Rightarrow> ops @ [x])
            (case d of None \<Rightarrow> deleteOps | Some x \<Rightarrow> deleteOps @ [x]) sdex1
          = (Inr (ops', deleteOps'), sdex')"
      using "1.prems" r Inr md by simp
    from "1.IH"[OF r[symmetric, unfolded Inr md] refl refl rec]
    obtain ms ds where
      "ops' = (case m of None \<Rightarrow> ops | Some x \<Rightarrow> ops @ [x]) @ ms"
      "deleteOps' = (case d of None \<Rightarrow> deleteOps | Some x \<Rightarrow> deleteOps @ [x]) @ ds"
      "list_all (\<lambda>x. \<not> isDelete x) ms" "list_all isDelete ds" by blast
    with shape show ?thesis by (auto split: option.splits)
  qed
qed simp_all


lemma createLevels_shape:
  assumes "createLevels N incr s pm createOffer hack newOrders ops sdex = (Inr ops', sdex')"
  shows "\<exists>cs. ops' = ops @ cs \<and> list_all (\<lambda>x. \<not> isDelete x) cs"
  using assms
proof (induction newOrders arbitrary: ops sdex)
  case Nil
  then show ?case by simp
next
  case (Cons newOrder newOrders)
  let ?price = "AsFloat N (Scale N (order_Price newOrder) pm)"
  let ?vol = "AsFloat N (Scale N (order_Volume newOrder) (1.0 / volumeDivideBy s))"
  show ?case
  proof (cases "?vol < AsFloat N (MinBaseVolume (backingConstraints s))")
    case True
    with Cons.prems have "createLevels N incr s pm createOffer hack newOrders ops sdex = (Inr ops', sdex')"
      by (simp add: Let_def)
    from Cons.IH[OF this] show ?thesis .
  next
    case False
    show ?thesis
    proof (cases "createOffer sdex (baseAsset s) (quoteAsset s) ?price ?vol (incr True)")
      case (Inl e)
      with False Cons.prems show ?thesis by (simp add: Let_def)
    next
      case (Inr mo)
      show ?thesis
      proof (cases mo)
        case None
        with Inr False Cons.prems
        have "createLevels N incr s pm createOffer hack newOrders ops sdex = (Inr ops', sdex')"
          by (simp add: Let_def)
        from Cons.IH[OF this] show ?thesis .
      next
        case (Some b)
        with Inr False Cons.prems
        obtain sdex1 where
          "createLevels N incr s pm createOffer hack newOrders (ops @ [CreateOffer b]) sdex1 = (Inr ops', sdex')"
          by (simp add: Let_def)
        from Cons.IH[OF this] obtain cs where
          "ops' = (ops @ [CreateOffer b]) @ cs" "list_all (\<lambda>x. \<not> isDelete x) cs" by blast
        then have "ops' = ops @ (CreateOffer b # cs) \<and> list_all (\<lambda>x. \<not> isDelete x) (CreateOffer b # cs)"
          by simp
        then show ?thesis by blast
      qed
    qed
  qed
qed

lemma deletes_then_others:
  assumes "list_all isDelete ds" and "list_all (\<lambda>x. \<not> isDelete x) os"
    and "i < j" and "j < length (ds @ os)" and "isDelete ((ds @ os) ! j)"
  shows "isDelete ((ds @ os) ! i)"
proof -
  have "j < length ds"
  proof (rule ccontr)
    assume "\<not> j < length ds"
    then have "(ds @ os) ! j = os ! (j - length ds)" "j - length ds < length os"
      using assms(4) by (auto simp: nth_append)
    with assms(2,5) show False by (auto simp: list_all_length)
  qed
  with assms(3) have "i < length ds" by simp
  with assms(1) show ?thesis by (simp add: nth_append list_all_length)
qed

lemma updateLevels_shape:
  assumes "updateLevels N incr s oldOffers newOrders modifyOffer createOffer pm hack sdex
             = (Inr allOps, sdex')"
  shows "\<exists>ds os. allOps = ds @ os \<and> list_all isDelete ds \<and> list_all (\<lambda>x. \<not> isDelete x) os"
proof (cases "length newOrders \<ge> length oldOffers")
  case True
  obtain r sdex1 where r: "modifyLevels N incr s pm modifyOffer hack oldOffers newOrders [] [] sdex = (r, sdex1)"
    by (cases "modifyLevels N incr s pm modifyOffer hack oldOffers newOrders [] [] sdex")
  show ?thesis
  proof (cases r)
    case (Inl e)
    with r True assms show ?thesis by (simp add: updateLevels_def)
  next
    case (Inr od)
    obtain ops deleteOps where od: "od = (ops, deleteOps)" by (cases od)
    from modifyLevels_shape[OF r[unfolded Inr od]]
    have ms: "list_all (\<lambda>x. \<not> isDelete x) ops" "list_all isDelete deleteOps" by auto
    obtain r2 sdex2 where r2: "createLevels N incr s pm createOffer hack
        (drop (length oldOffers) newOrders) ops sdex1 = (r2, sdex2)"
      by (cases "createLevels N incr s pm createOffer hack (drop (length oldOffers) newOrders) ops sdex1")
    show ?thesis
    proof (cases r2)
      case (Inl e)
      with r r2 Inr od True assms show ?thesis by (simp add: updateLevels_def)
    next
      case (Inr ops2)
      from createLevels_shape[OF r2[unfolded Inr]] ms(1)
      have "list_all (\<lambda>x. \<not> isDelete x) ops2" by auto
      moreover have "allOps = deleteOps @ ops2"
        using r r2 \<open>r = Inr od\<close> od Inr True assms by (simp add: updateLevels_def)
      ultimately show ?thesis using ms(2) by blast
    qed
  qed
next
  case False
  obtain r sdex1 where r: "modifyLevels N incr s pm modifyOffer hack oldOffers newOrders [] [] sdex = (r, sdex1)"
    by (cases "modifyLevels N incr s pm modifyOffer hack oldOffers newOrders [] [] sdex")
  show ?thesis
  proof (cases r)
    case (Inl e)
    with r False assms show ?thesis by (simp add: updateLevels_def)
  next
    case (Inr od)
    obtain ops deleteOps where od: "od = (ops, deleteOps)" by (cases od)
    from modifyLevels_shape[OF r[unfolded Inr od]]
    have ms: "list_all (\<lambda>x. \<not> isDelete x) ops" "list_all isDelete deleteOps" by auto
    have "allOps = (deleteOps @ map DeleteOffer (drop (length newOrders) oldOffers)) @ ops"
      using r Inr od False assms by (simp add: updateLevels_def)
    moreover have "list_all isDelete (deleteOps @ map DeleteOffer (drop (length newOrders) oldOffers))"
      using ms(2) by (auto simp: list_all_iff)
    ultimately show ?thesis using ms(1) by blast
  qed
qed

lemma UpdateWithOps_shape:
  assumes "UpdateWithOps N incr B PriceAsFloat s orderBook buyingAOffers sellingAOffers sdex
             = (Inr ops, sdex')"
  shows "\<exists>ds1 os1 ds2 os2. ops = (ds1 @ os1) @ (ds2 @ os2)
           \<and> list_all isDelete ds1 \<and> list_all (\<lambda>x. \<not> isDelete x) os1
           \<and> list_all isDelete ds2 \<and> list_all (\<lambda>x. \<not> isDelete x) os2"
proof -
  obtain obBids obAsks where ob: "orderBook = Inr (obBids, obAsks)"
    using assms by (cases orderBook) (auto simp: UpdateWithOps_def)
  define bids where "bids = (if length obBids > 50 then take 50 obBids else obBids)"
  define asks where "asks = (if length obAsks > 50 then take 50 obAsks else obAsks)"
  obtain r1 sdex1 where r1: "updateLevels N incr s buyingAOffers bids (ModifyBuyOffer B)
      (CreateBuyOffer B) (1 - perLevelSpread s) True sdex = (r1, sdex1)"
    by (cases "updateLevels N incr s buyingAOffers bids (ModifyBuyOffer B)
      (CreateBuyOffer B) (1 - perLevelSpread s) True sdex")
  obtain buyOps where b: "r1 = Inr buyOps"
    using assms ob r1 by (cases r1) (auto simp: UpdateWithOps_def Let_def bids_def)
  obtain r2 sdex2 where r2: "updateLevels N incr s sellingAOffers asks (ModifySellOffer B)
      (CreateSellOffer B) (1 + perLevelSpread s) False sdex1 = (r2, sdex2)"
    by (cases "updateLevels N incr s sellingAOffers asks (ModifySellOffer B)
      (CreateSellOffer B) (1 + perLevelSpread s) False sdex1")
  obtain sellOps where sl: "r2 = Inr sellOps"
    using assms ob r1 b r2 by (cases r2) (auto simp: UpdateWithOps_def Let_def bids_def asks_def)
  have res: "ops = sellOps @ buyOps \<or> ops = buyOps @ sellOps"
    using assms ob r1 b r2 sl
    by (auto simp: UpdateWithOps_def Let_def bids_def asks_def split: if_splits)
  from updateLevels_shape[OF r1[unfolded b]] obtain bd bo where
    bs: "buyOps = bd @ bo" "list_all isDelete bd" "list_all (\<lambda>x. \<not> isDelete x) bo" by blast
  from updateLevels_shape[OF r2[unfolded sl]] obtain sd so where
    ss: "sellOps = sd @ so" "list_all isDelete sd" "list_all (\<lambda>x. \<not> isDelete x) so" by blast
  from res show ?thesis
  proof
    assume "ops = sellOps @ buyOps"
    with bs ss show ?thesis by blast
  next
    assume "ops = buyOps @ sellOps"
    with bs ss show ?thesis by blast
  qed
qed

subsection \<open>Evaluating the concrete collaborators\<close>

lemmas sample_defs = sampleStrategy_def sampleOffer_def limitOrder_def noNativeAmount_def
  acceptModify_def abandonModify_def acceptCreate_def sampleBuilders_def samplePriceAsFloat_def
  decimalNumber_def numberFromFloat_def toFixed_def minPrecision_def parseDecimal_def digitOf_def
  AddLiabilities_def makeAssetSurplus_def round_def

subsection \<open>Paired offers\<close>

text \<open>
  Claim C1. When the live offer parses and its price and volume (for a buy-side offer: the
  volume multiplied by the price, and the inverted price) equal the scaled target's within
  the epsilon 0.0001, \<open>doModifyOffer\<close> returns neither a modify nor a delete operation and
  calls \<open>AddLiabilities\<close> with the offer's selling and buying assets and the amounts of
  the offer; the loop of \<open>updateLevels\<close> goes on with \<open>ops\<close> and \<open>deleteOps\<close> as they were.
\<close>

theorem unchanged_pair_is_kept:
  assumes "MustNumberFromString N (offer_Price oldOffer) (PricePrecision (primaryConstraints s)) = Some oldPrice0"
    and "MustNumberFromString N (offer_Amount oldOffer) (VolumePrecision (primaryConstraints s)) = Some oldVol0"
    and "oldVol = (if hack then Multiply N oldVol0 oldPrice0 else oldVol0)"
    and "oldPrice = (if hack then InvertNumber N oldPrice0 else oldPrice0)"
    and "EqualsPrecisionNormalized N oldPrice (Scale N (order_Price newOrder) pm) 0.0001"
    and "EqualsPrecisionNormalized N oldVol (Scale N (order_Volume newOrder) (1 / volumeDivideBy s)) 0.0001"
    and "sdex' = AddLiabilities sdex (offer_Selling oldOffer) (offer_Buying oldOffer)
                   (if hack then AsFloat N (Multiply N oldVol oldPrice) else AsFloat N oldVol)
                   (if hack then AsFloat N oldVol else AsFloat N (Multiply N oldVol oldPrice))
                   (incr False)"
  shows "doModifyOffer N incr s oldOffer newOrder pm modifyOffer hack sdex = (Inr (None, None), sdex')
         \<and> modifyLevels N incr s pm modifyOffer hack (oldOffer # oldOffers) (newOrder # newOrders)
               ops deleteOps sdex
             = modifyLevels N incr s pm modifyOffer hack oldOffers newOrders ops deleteOps sdex'"
proof -
  have "doModifyOffer N incr s oldOffer newOrder pm modifyOffer hack sdex = (Inr (None, None), sdex')"
    using assms by (simp add: doModifyOffer_def Let_def)
  then show ?thesis by simp
qed

theorem unchanged_pair_is_kept_witness:
  "doModifyOffer decimalNumber noNativeAmount sampleStrategy sampleOffer
       (limitOrder OrderActionSell 2 10) 1 acceptModify False []
     = (Inr (None, None),
        [\<lparr>liab_selling = ''XLM'', liab_buying = ''USD'', liab_amountSelling = 10,
          liab_amountBuying = 20, liab_incrementalNative = 0\<rparr>])"
  using unchanged_pair_is_kept[of decimalNumber sampleOffer sampleStrategy
      "numberFromFloat 2 7" "numberFromFloat 10 7" "numberFromFloat 10 7" False "numberFromFloat 2 7"
      "limitOrder OrderActionSell 2 10" 1
      "[\<lparr>liab_selling = ''XLM'', liab_buying = ''USD'', liab_amountSelling = 10,
          liab_amountBuying = 20, liab_incrementalNative = 0\<rparr>]" "[]" noNativeAmount acceptModify]
  by (simp add: sample_defs)




subsection \<open>The order of the operations\<close>

text \<open>
  One pass with a bid to create and a live sell offer without a target: the create
  operation of the buy side stands before the delete operation of the sell side.
\<close>

theorem deletes_first_counterexample:
  "fst (UpdateWithOps decimalNumber noNativeAmount sampleBuilders samplePriceAsFloat sampleStrategy
          (Inr ([limitOrder OrderActionBuy 1 5], [])) [] [sampleOffer] [])
     = Inr [CreateOffer (1, 5), DeleteOffer sampleOffer]"
  by (simp add: sample_defs UpdateWithOps_def updateLevels_def Let_def)

text \<open>
  Claim C2, amended. In the list \<open>updateLevels\<close> returns for one side no modify or create
  operation stands before a delete operation. The list \<open>UpdateWithOps\<close> returns for the
  pass is the two sides' lists one after the other, so it splits into two parts each of
  which has its deletes first.
\<close>

theorem deletes_first_per_side:
  "(updateLevels N incr s oldOffers newOrders modifyOffer createOffer pm hack sdex = (Inr allOps, sdex')
      \<longrightarrow> (\<forall>i j. i < j \<and> j < length allOps \<and> isDelete (allOps ! j) \<longrightarrow> isDelete (allOps ! i)))
   \<and> (UpdateWithOps N incr B PriceAsFloat s orderBook buyingAOffers sellingAOffers sdex = (Inr ops, sdex'')
      \<longrightarrow> (\<exists>first second. ops = first @ second
             \<and> (\<forall>i j. i < j \<and> j < length first \<and> isDelete (first ! j) \<longrightarrow> isDelete (first ! i))
             \<and> (\<forall>i j. i < j \<and> j < length second \<and> isDelete (second ! j) \<longrightarrow> isDelete (second ! i))))"
proof (intro conjI impI)
  assume "updateLevels N incr s oldOffers newOrders modifyOffer createOffer pm hack sdex = (Inr allOps, sdex')"
  from updateLevels_shape[OF this] obtain ds os where
    "allOps = ds @ os" "list_all isDelete ds" "list_all (\<lambda>x. \<not> isDelete x) os" by blast
  then show "\<forall>i j. i < j \<and> j < length allOps \<and> isDelete (allOps ! j) \<longrightarrow> isDelete (allOps ! i)"
    using deletes_then_others by blast
next
  assume "UpdateWithOps N incr B PriceAsFloat s orderBook buyingAOffers sellingAOffers sdex = (Inr ops, sdex'')"
  from UpdateWithOps_shape[OF this] obtain ds1 os1 ds2 os2 where
    sh: "ops = (ds1 @ os1) @ (ds2 @ os2)"
      "list_all isDelete ds1" "list_all (\<lambda>x. \<not> isDelete x) os1"
      "list_all isDelete ds2" "list_all (\<lambda>x. \<not> isDelete x) os2" by blast
  have "\<forall>i j. i < j \<and> j < length (ds1 @ os1) \<and> isDelete ((ds1 @ os1) ! j) \<longrightarrow> isDelete ((ds1 @ os1) ! i)"
    using deletes_then_others[OF sh(2,3)] by blast
  moreover have "\<forall>i j. i < j \<and> j < length (ds2 @ os2) \<and> isDelete ((ds2 @ os2) ! j) \<longrightarrow> isDelete ((ds2 @ os2) ! i)"
    using deletes_then_others[OF sh(4,5)] by blast
  ultimately show "\<exists>first second. ops = first @ second
             \<and> (\<forall>i j. i < j \<and> j < length first \<and> isDelete (first ! j) \<longrightarrow> isDelete (first ! i))
             \<and> (\<forall>i j. i < j \<and> j < length second \<and> isDelete (second ! j) \<longrightarrow> isDelete (second ! i))"
    using sh(1) by blast
qed

theorem deletes_first_per_side_witness:
  "updateLevels decimalNumber noNativeAmount sampleStrategy [sampleOffer]
       [limitOrder OrderActionSell 3 0.5, limitOrder OrderActionSell 4 10]
       acceptModify acceptCreate 1 False []
     = (Inr [DeleteOffer sampleOffer, CreateOffer (4, 10)],
        [\<lparr>liab_selling = ''XLM'', liab_buying = ''USD'', liab_amountSelling = 10,
          liab_amountBuying = 40, liab_incrementalNative = 0\<rparr>])
   \<and> isDelete ([DeleteOffer sampleOffer, CreateOffer (4 :: real, 10 :: real)] ! 0)
   \<and> fst (UpdateWithOps decimalNumber noNativeAmount sampleBuilders samplePriceAsFloat sampleStrategy
          (Inr ([limitOrder OrderActionBuy 1 5], [])) [] [sampleOffer] [])
     = Inr ([CreateOffer (1, 5)] @ [DeleteOffer sampleOffer])"
  using deletes_first_per_side[of decimalNumber noNativeAmount sampleStrategy "[sampleOffer]"
      "[limitOrder OrderActionSell 3 0.5, limitOrder OrderActionSell 4 10]"
      acceptModify acceptCreate 1 False "[]"]
  by (simp add: sample_defs UpdateWithOps_def updateLevels_def doModifyOffer_def Let_def)

section \<open>Properties of the fill-offset surplus tracker\<close>

lemmas sample_defs2 = sample_defs surplusStrategy_def sampleTrade_def rejectOrder_def nilTransactionID_def
  emptySurplusStrategy_def smallTrade_def




text \<open>
  Claim C5. When \<open>HandleFill\<close> reaches the submission and \<open>AddOrder\<close> returns an error or a
  \<open>nil\<close> transaction identifier, \<open>HandleFill\<close> returns an error; the committed surplus of
  the reversed action is the old one plus the volume of this attempt, the total is the
  old one plus the filled volume, and the other action's surplus is untouched.
\<close>

theorem failed_offset_keeps_commitment:
  assumes a: "a = Reverse (trade_OrderAction trade)"
    and v: "baseVolumeToOffset N
       (s\<lparr>baseSurplus := (baseSurplus s)(a := (baseSurplus s a)\<lparr>total := Add N (total (baseSurplus s a)) (trade_Volume trade)\<rparr>)\<rparr>)
       trade a = Some newVolume"
    and o: "newOrder = \<lparr>order_Pair = backingPair s, order_Action = a, order_Type = OrderTypeLimit,
                order_Price = NumberByCappingPrecision N (trade_Price trade) (PricePrecision (backingConstraints s)),
                order_Volume = newVolume, order_Timestamp = None\<rparr>"
    and f: "addOrder newOrder = Inl e \<or> addOrder newOrder = Inr None"
  shows "fst (HandleFill N addOrder s trade) \<noteq> None
       \<and> total (baseSurplus (fst (snd (HandleFill N addOrder s trade))) a)
           = Add N (total (baseSurplus s a)) (trade_Volume trade)
       \<and> committed (baseSurplus (fst (snd (HandleFill N addOrder s trade))) a)
           = Add N (committed (baseSurplus s a)) newVolume
       \<and> baseSurplus (fst (snd (HandleFill N addOrder s trade))) (Reverse a) = baseSurplus s (Reverse a)
       \<and> snd (snd (HandleFill N addOrder s trade)) = [newOrder]"
proof -
  have ne: "Reverse a \<noteq> a" by (cases a) simp_all
  from f show ?thesis
  proof
    assume "addOrder newOrder = Inl e"
    with a v o ne show ?thesis by (auto simp: HandleFill_def Let_def)
  next
    assume "addOrder newOrder = Inr None"
    with a v o ne show ?thesis by (auto simp: HandleFill_def Let_def)
  qed
qed

lemma sample_fill_volume:
  "baseVolumeToOffset decimalNumber
     (surplusStrategy\<lparr>baseSurplus := (baseSurplus surplusStrategy)(OrderActionSell :=
        (baseSurplus surplusStrategy OrderActionSell)
          \<lparr>total := Add decimalNumber (total (baseSurplus surplusStrategy OrderActionSell))
                     (trade_Volume sampleTrade)\<rparr>)\<rparr>)
     sampleTrade OrderActionSell = Some (numberFromFloat 1.93 2)"
  by (simp add: sample_defs2 baseVolumeToOffset_def Let_def)

lemma sample_fill_totals:
  "num_value (Add decimalNumber (total (baseSurplus surplusStrategy OrderActionSell))
               (trade_Volume sampleTrade)) = 1.93456"
  "num_value (Add decimalNumber (committed (baseSurplus surplusStrategy OrderActionSell))
               (numberFromFloat 1.93 2)) = 1.93"
  by (simp_all add: sample_defs2)

theorem failed_offset_keeps_commitment_witness:
  "fst (HandleFill decimalNumber rejectOrder surplusStrategy sampleTrade) \<noteq> None
   \<and> fst (HandleFill decimalNumber nilTransactionID surplusStrategy sampleTrade) \<noteq> None
   \<and> num_value (total (baseSurplus (fst (snd (HandleFill decimalNumber rejectOrder surplusStrategy sampleTrade)))
        OrderActionSell)) = 1.93456
   \<and> num_value (committed (baseSurplus (fst (snd (HandleFill decimalNumber rejectOrder surplusStrategy sampleTrade)))
        OrderActionSell)) = 1.93
   \<and> num_value (committed (baseSurplus (fst (snd (HandleFill decimalNumber nilTransactionID surplusStrategy sampleTrade)))
        OrderActionSell)) = 1.93"
proof -
  have a: "OrderActionSell = Reverse (trade_OrderAction sampleTrade)"
    by (simp add: sampleTrade_def)
  have r: "rejectOrder newOrder = Inl (Error ''rejected'') \<or> rejectOrder newOrder = Inr None" for newOrder
    by (simp add: rejectOrder_def)
  have n: "nilTransactionID newOrder = Inl e \<or> nilTransactionID newOrder = Inr None" for newOrder e
    by (simp add: nilTransactionID_def)
  note t1 = failed_offset_keeps_commitment[where addOrder = rejectOrder, OF a sample_fill_volume refl r]
  note t2 = failed_offset_keeps_commitment[where addOrder = nilTransactionID, OF a sample_fill_volume refl n]
  have e1: "fst (HandleFill decimalNumber rejectOrder surplusStrategy sampleTrade) \<noteq> None"
    using t1 by (rule conjunct1)
  have e2: "fst (HandleFill decimalNumber nilTransactionID surplusStrategy sampleTrade) \<noteq> None"
    using t2 by (rule conjunct1)
  have tot: "num_value (total (baseSurplus (fst (snd (HandleFill decimalNumber rejectOrder
                surplusStrategy sampleTrade))) OrderActionSell)) = 1.93456"
    unfolding conjunct1[OF conjunct2[OF t1]] by (rule sample_fill_totals(1))
  have c1: "num_value (committed (baseSurplus (fst (snd (HandleFill decimalNumber rejectOrder
                surplusStrategy sampleTrade))) OrderActionSell)) = 1.93"
    unfolding conjunct1[OF conjunct2[OF conjunct2[OF t1]]] by (rule sample_fill_totals(2))
  have c2: "num_value (committed (baseSurplus (fst (snd (HandleFill decimalNumber nilTransactionID
                surplusStrategy sampleTrade))) OrderActionSell)) = 1.93"
    unfolding conjunct1[OF conjunct2[OF conjunct2[OF t2]]] by (rule sample_fill_totals(2))
  from e1 e2 tot c1 c2 show ?thesis by (intro conjI)
qed








section \<open>Properties of the volume filter\<close>

lemma natDigits_20: "natDigits 20 = ''20''" "natDigits 0 = ''0''"
  by (simp_all add: natDigits.simps[of 20] natDigits.simps[of 2] natDigits.simps[of 0])

lemma sprintf7_20: "sprintf7 20 = ''20.0000000''"
proof -
  have "replicate 6 (CHR ''0'') = ''000000''"
    by (simp add: numeral_eq_Suc)
  then show ?thesis
    by (simp add: sprintf7_def round_def Let_def natDigits_20)
qed

subsection \<open>Sell operations against the base-units cap\<close>

lemma exact_base_cap_shrinks:
  assumes "SellBaseAssetCapInBaseUnits (vf_config f) = Some cap"
    and "SellBaseAssetCapInQuoteUnits (vf_config f) = None"
    and "mode (vf_config f) = volumeFilterModeExact"
    and "IsSelling L (vf_baseAsset f) (vf_quoteAsset f) (op_Selling op) (op_Buying op) = Inr True"
    and "ParseFloat L (op_Price op) = Some sellPrice"
    and "ParseFloat L (op_Amount op) = Some amount"
    and "BaseVol dailyOTB + BaseVol dailyTBB + amount > cap"
  shows "volumeFilterFn L f dailyOTB dailyTBB op =
     (if cap - BaseVol dailyOTB - BaseVol dailyTBB > 0
      then (Inr (Some (op\<lparr>op_Amount := Sprintf7 L (cap - BaseVol dailyOTB - BaseVol dailyTBB)\<rparr>)),
            op\<lparr>op_Amount := Sprintf7 L (cap - BaseVol dailyOTB - BaseVol dailyTBB)\<rparr>,
            \<lparr>BaseVol = BaseVol dailyTBB + (cap - BaseVol dailyOTB - BaseVol dailyTBB),
             QuoteVol = QuoteVol dailyTBB + (cap - BaseVol dailyOTB - BaseVol dailyTBB) * sellPrice\<rparr>)
      else (Inr None, op, dailyTBB))"
  using assms
  by (simp add: volumeFilterFn_def checkBaseUnits_def checkQuoteUnits_def Let_def)

text \<open>
  Claim C3. Exact mode, a base-units cap of 100 and no quote-units cap, 80 sold today and
  nothing to be booked yet: for a sell operation whose amount parses to 30,
  \<open>volumeFilterFn\<close> keeps the operation with its amount rewritten to \<open>%.7f\<close> of 20 and
  leaves 20 base units to be booked. With that total the next sell operation of the same
  call, whatever its positive amount, is dropped.
\<close>

theorem exact_mode_shrinks_to_cap:
  assumes "SellBaseAssetCapInBaseUnits (vf_config f) = Some 100"
    and "SellBaseAssetCapInQuoteUnits (vf_config f) = None"
    and "mode (vf_config f) = volumeFilterModeExact"
    and "BaseVol dailyOTB = 80"
    and "IsSelling L (vf_baseAsset f) (vf_quoteAsset f) (op_Selling op) (op_Buying op) = Inr True"
    and "ParseFloat L (op_Price op) = Some sellPrice"
    and "ParseFloat L (op_Amount op) = Some 30"
    and "IsSelling L (vf_baseAsset f) (vf_quoteAsset f) (op_Selling next) (op_Buying next) = Inr True"
    and "ParseFloat L (op_Price next) = Some nextPrice"
    and "ParseFloat L (op_Amount next) = Some nextAmount"
    and "nextAmount > 0"
  shows "volumeFilterFn L f dailyOTB \<lparr>BaseVol = 0, QuoteVol = 0\<rparr> op =
           (Inr (Some (op\<lparr>op_Amount := Sprintf7 L 20\<rparr>)), op\<lparr>op_Amount := Sprintf7 L 20\<rparr>,
            \<lparr>BaseVol = 20, QuoteVol = 20 * sellPrice\<rparr>)
       \<and> volumeFilterFn L f dailyOTB \<lparr>BaseVol = 20, QuoteVol = 20 * sellPrice\<rparr> next =
           (Inr None, next, \<lparr>BaseVol = 20, QuoteVol = 20 * sellPrice\<rparr>)"
proof -
  have first: "volumeFilterFn L f dailyOTB \<lparr>BaseVol = 0, QuoteVol = 0\<rparr> op =
           (Inr (Some (op\<lparr>op_Amount := Sprintf7 L 20\<rparr>)), op\<lparr>op_Amount := Sprintf7 L 20\<rparr>,
            \<lparr>BaseVol = 20, QuoteVol = 20 * sellPrice\<rparr>)"
    using exact_base_cap_shrinks[OF assms(1,2,3,5,6,7), of dailyOTB "\<lparr>BaseVol = 0, QuoteVol = 0\<rparr>"] assms(4)
    by simp
  have second: "volumeFilterFn L f dailyOTB \<lparr>BaseVol = 20, QuoteVol = 20 * sellPrice\<rparr> next =
           (Inr None, next, \<lparr>BaseVol = 20, QuoteVol = 20 * sellPrice\<rparr>)"
    using exact_base_cap_shrinks[OF assms(1,2,3,8,9,10), of dailyOTB "\<lparr>BaseVol = 20, QuoteVol = 20 * sellPrice\<rparr>"]
      assms(4,11)
    by simp
  from first second show ?thesis by (rule conjI)
qed

lemmas filter_defs = sampleFilter_def sampleSellOp_def laterSellOp_def sampleBuyOp_def sampleStrings_def
  sampleIsSelling_def parseDecimal_def digitOf_def

theorem exact_mode_shrinks_to_cap_witness:
  "volumeFilterFn sampleStrings sampleFilter \<lparr>BaseVol = 80, QuoteVol = 160\<rparr>
       \<lparr>BaseVol = 0, QuoteVol = 0\<rparr> sampleSellOp =
     (Inr (Some (sampleSellOp\<lparr>op_Amount := ''20.0000000''\<rparr>)),
      sampleSellOp\<lparr>op_Amount := ''20.0000000''\<rparr>, \<lparr>BaseVol = 20, QuoteVol = 40\<rparr>)
   \<and> volumeFilterFn sampleStrings sampleFilter \<lparr>BaseVol = 80, QuoteVol = 160\<rparr>
       \<lparr>BaseVol = 20, QuoteVol = 40\<rparr> laterSellOp =
     (Inr None, laterSellOp, \<lparr>BaseVol = 20, QuoteVol = 40\<rparr>)"
  using exact_mode_shrinks_to_cap[where L = sampleStrings and f = sampleFilter
      and dailyOTB = "\<lparr>BaseVol = 80, QuoteVol = 160\<rparr>" and op = sampleSellOp and sellPrice = 2
      and ?next = laterSellOp and nextPrice = 2 and nextAmount = 5] sprintf7_20
  by (simp add: filter_defs)

subsection \<open>Buy operations\<close>

text \<open>
  Claim C6 says that a buy operation passes the filter. The code does otherwise: for an
  operation that \<open>IsSelling\<close> reports as not a sell and whose price and amount parse,
  \<open>volumeFilterFn\<close> returns \<open>nil, nil\<close>, the dropped operation, whatever the
  configuration and the running totals, which it leaves as they were.
\<close>

theorem buy_operation_is_dropped:
  assumes "IsSelling L (vf_baseAsset f) (vf_quoteAsset f) (op_Selling op) (op_Buying op) = Inr False"
    and "ParseFloat L (op_Price op) = Some sellPrice"
    and "ParseFloat L (op_Amount op) = Some amount"
  shows "volumeFilterFn L f dailyOTB dailyTBB op = (Inr None, op, dailyTBB)"
  using assms by (simp add: volumeFilterFn_def)

theorem buy_operation_is_dropped_witness:
  "volumeFilterFn sampleStrings sampleFilter \<lparr>BaseVol = 0, QuoteVol = 0\<rparr>
       \<lparr>BaseVol = 0, QuoteVol = 0\<rparr> sampleBuyOp
     = (Inr None, sampleBuyOp, \<lparr>BaseVol = 0, QuoteVol = 0\<rparr>)"
  using buy_operation_is_dropped[where L = sampleStrings and f = sampleFilter and op = sampleBuyOp
      and sellPrice = "1 / 2" and amount = 30]
  by (simp add: filter_defs)

section \<open>Properties of the TWAP level provider\<close>

lemmas twap_defs = sampleProvider_def sampleVolumeFilter_def failingVolumeFilter_def halfGenerator_def
  noOffset_def sampleEnv_def failingQueryEnv_def failingPriceEnv_def sampleBucket_def
  activeProvider_def lastBucketProvider_def secondsInDay_def secondsInHour_def floorDate_def
  ceilDate_def Weekday_def

lemma sample_factory:
  "makeSellTwapLevelProvider
       \<lparr>PricePrecision = 7, VolumePrecision = 7, MinBaseVolume = numberFromFloat 0 7\<rparr>
       [True, True, True, True, True, True, True] 24 43200 1 (1 / 2) (1 / 10) (0 :: nat)
     = Inr sampleProvider"
  by (simp add: makeSellTwapLevelProvider_def sampleProvider_def secondsInDay_def secondsInHour_def)

lemma first_call:
  "GetLevels decimalNumber sampleProvider (sampleEnv 0)
     = (Inr [\<lparr>level_Price = numberFromFloat 2 7, level_Amount = numberFromFloat 4.4 7\<rparr>],
        activeProvider)"
  by (simp add: GetLevels_def makeRoundID_def makeBucketInfo_def makeFirstBucketFrame_def
      makeRoundInfo_def baseRemaining_def Let_def twap_defs decimalNumber_def)

subsection \<open>The bucket index\<close>

text \<open>
  Claim C7. With an active bucket, when the bucket index computed from the clock is
  neither the active bucket's index nor that index plus one, \<open>GetLevels\<close> returns the
  error of the index check and no level, and the provider is as it was before the call.
\<close>

theorem bucket_jump_is_error:
  assumes "activeBucket p = Some active"
    and "0 < parentBucketSizeSeconds p"
    and "bID = (env_now env - floorDate (env_now env)) sdiv parentBucketSizeSeconds p"
    and "bID \<noteq> bucket_ID active"
    and "bID \<noteq> bucket_ID active + 1"
  shows "GetLevels N p env =
           (Inl (Wrapped ''unable to make bucketInfo''
                   (Error ''new bucketID was not one more than the previous bucketID'')), p)"
  using assms
  by (simp add: GetLevels_def makeBucketInfo_def cutoverToNewBucket_def Let_def)

theorem bucket_jump_is_error_witness:
  "GetLevels decimalNumber lastBucketProvider (sampleEnv 86400) =
           (Inl (Wrapped ''unable to make bucketInfo''
                   (Error ''new bucketID was not one more than the previous bucketID'')),
            lastBucketProvider)"
  using bucket_jump_is_error[where p = lastBucketProvider and env = "sampleEnv 86400"
      and active = "sampleBucket\<lparr>bucket_ID := 1\<rparr>" and bID = 0 and N = decimalNumber]
  by (simp add: twap_defs)

subsection \<open>Errors and the provider's state\<close>

text \<open>
  Claim C10. Whenever \<open>GetLevels\<close> returns an error, \<open>activeBucket\<close> and
  \<open>previousRoundID\<close> are what they were before the call; of the provider only the
  generator can have moved (one draw, when the price feed fails after the size was
  drawn).
\<close>

theorem error_leaves_state:
  assumes "GetLevels N p env = (Inl e, p')"
  shows "activeBucket p' = activeBucket p \<and> previousRoundID p' = previousRoundID p
       \<and> p' = p\<lparr>random := random p'\<rparr>"
proof (cases "makeBucketInfo p (env_now env) (dowFilter env (Weekday (env_now env))) (makeRoundID p)")
  case (Inl e1)
  with assms show ?thesis by (simp add: GetLevels_def Let_def)
next
  case (Inr bucket)
  obtain r rng where rr: "makeRoundInfo p env (makeRoundID p) (env_now env) bucket = (r, rng)"
    by (cases "makeRoundInfo p env (makeRoundID p) (env_now env) bucket")
  show ?thesis
  proof (cases r)
    case (Inl e2)
    with assms Inr rr show ?thesis by (auto simp: GetLevels_def Let_def)
  next
    case (Inr rnd)
    with assms \<open>makeBucketInfo p (env_now env) (dowFilter env (Weekday (env_now env))) (makeRoundID p) = Inr bucket\<close> rr
    show ?thesis by (simp add: GetLevels_def Let_def)
  qed
qed

theorem error_leaves_state_witness:
  "GetLevels decimalNumber activeProvider (failingQueryEnv 0)
     = (Inl (Wrapped ''unable to make bucketInfo''
          (Wrapped ''could not update existing bucket''
             (Wrapped ''could not fetch daily values for today'' (Error ''query failed'')))),
        activeProvider)
   \<and> fst (GetLevels decimalNumber activeProvider (failingPriceEnv 0))
     = Inl (Wrapped ''unable to make roundInfo''
          (Wrapped ''could not get price from feed'' (Error ''feed down'')))
   \<and> activeBucket (snd (GetLevels decimalNumber activeProvider (failingPriceEnv 0)))
     = Some sampleBucket
   \<and> previousRoundID (snd (GetLevels decimalNumber activeProvider (failingPriceEnv 0))) = Some 0
   \<and> random (snd (GetLevels decimalNumber activeProvider (failingPriceEnv 0))) = 2"
proof -
  have q: "GetLevels decimalNumber activeProvider (failingQueryEnv 0)
     = (Inl (Wrapped ''unable to make bucketInfo''
          (Wrapped ''could not update existing bucket''
             (Wrapped ''could not fetch daily values for today'' (Error ''query failed'')))),
        activeProvider)"
    by (simp add: GetLevels_def makeRoundID_def makeBucketInfo_def updateExistingBucket_def
        Let_def twap_defs)
  have pr: "GetLevels decimalNumber activeProvider (failingPriceEnv 0)
     = (Inl (Wrapped ''unable to make roundInfo''
          (Wrapped ''could not get price from feed'' (Error ''feed down''))),
        activeProvider\<lparr>random := 2\<rparr>)"
    by (simp add: GetLevels_def makeRoundID_def makeBucketInfo_def updateExistingBucket_def
        makeRoundInfo_def baseRemaining_def Let_def twap_defs)
  have ab: "activeBucket activeProvider = Some sampleBucket"
      "previousRoundID activeProvider = Some 0"
    by (simp_all add: activeProvider_def)
  from error_leaves_state[OF pr] ab
  have st: "activeBucket (activeProvider\<lparr>random := 2\<rparr>) = Some sampleBucket
      \<and> previousRoundID (activeProvider\<lparr>random := 2\<rparr>) = Some 0"
    by simp
  show ?thesis
    unfolding q pr using st by simp
qed

subsection \<open>The first distribution of the surplus\<close>










end
